theory Spec2Isabelle
  imports Complex_Main
begin

section \<open>Python values and errors used by \<^verbatim>\<open>utils/train_utils.py\<close>\<close>

text \<open>
  The exceptions the modelled functions can raise. An exception is a value of the model:
  every function that can raise returns it next to the state it leaves behind.
\<close>

datatype pyerror =
  AssertionError | TypeError | AttributeError | ZeroDivisionError | IndexError | RuntimeError

text \<open>
  A Python float (or an int used as a score): the finite values are read as the reals they
  denote, which is exact for the comparisons \<^verbatim>\<open><\<close> and \<^verbatim>\<open>>\<close>; the two
  infinities and NaN are values of their own. Every comparison with NaN is false.
\<close>

datatype pyfloat = NegInf | Fin real | PosInf | NaN

fun float_lt :: "pyfloat \<Rightarrow> pyfloat \<Rightarrow> bool" where
  "float_lt NaN y = False"
| "float_lt x NaN = False"
| "float_lt (Fin a) (Fin b) = (a < b)"
| "float_lt x NegInf = False"
| "float_lt NegInf y = True"
| "float_lt PosInf y = False"
| "float_lt (Fin a) PosInf = True"

fun float_le :: "pyfloat \<Rightarrow> pyfloat \<Rightarrow> bool" where
  "float_le NaN y = False"
| "float_le x NaN = False"
| "float_le x y = (x = y \<or> float_lt x y)"

text \<open>The \<^verbatim>\<open>score\<close> argument: \<^verbatim>\<open>None\<close> (its default) or a number.\<close>

datatype pyval = PyNone | PyFloat pyfloat

text \<open>
  An argument that is \<^verbatim>\<open>None\<close>, one object or a list of objects
  (\<^verbatim>\<open>model\<close>, \<^verbatim>\<open>optimizer\<close>, \<^verbatim>\<open>scheduler\<close>). An object is modelled by
  its state, the blob that \<^verbatim>\<open>state_dict()\<close> returns and \<^verbatim>\<open>load_state_dict\<close> sets.
\<close>

type_synonym blob = string

datatype 'a pyarg = NoArg | Single 'a | Several "'a list"

fun as_list :: "'a pyarg \<Rightarrow> 'a list option" where
  "as_list NoArg = None"
| "as_list (Single x) = Some [x]"
| "as_list (Several xs) = Some xs"

section \<open>Configuration, checkpoint record, process state\<close>

text \<open>The fields of the \<^verbatim>\<open>args\<close> namespace that the modelled functions read.\<close>

record args =
  no_save :: bool
  save_interval :: int
  checkpoint_dir :: string
  step_checkpoints :: bool
  restore_file :: "string option"
  no_log :: bool
  log_file :: "string option"
  resume_training :: bool

text \<open>
  The dictionary that \<^verbatim>\<open>torch.save\<close> writes and \<^verbatim>\<open>torch.load\<close> returns. A field is
  \<open>None\<close> when the key is absent; \<^verbatim>\<open>best_score\<close> and \<^verbatim>\<open>score\<close> may hold Python's
  \<^verbatim>\<open>None\<close> (\<open>Some PyNone\<close>). For \<^verbatim>\<open>model\<close>, \<^verbatim>\<open>optimizer\<close> and
  \<^verbatim>\<open>scheduler\<close> the code reads \<^verbatim>\<open>state_dict.get(key, None) is not None\<close>, so an
  absent key and a \<^verbatim>\<open>None\<close> value are both \<open>None\<close>.
\<close>

record state_dict =
  sd_step :: "int option"
  sd_score :: "pyval option"
  sd_last_step :: "int option"
  sd_best_step :: "int option"
  sd_best_score :: "pyval option"
  sd_model :: "blob list option"
  sd_optimizer :: "blob list option"
  sd_scheduler :: "blob list option"
  sd_args :: "args option"

text \<open>
  The attributes the code attaches to the function object \<^verbatim>\<open>save_checkpoint\<close>. A field is
  \<open>None\<close> while the attribute has never been set.
\<close>

record attrs =
  last_step :: "int option"
  best_score :: "pyval option"
  best_step :: "int option"

definition fresh_attrs :: attrs where
  "fresh_attrs = \<lparr>last_step = None, best_score = None, best_step = None\<rparr>"

text \<open>
  The process and its disk: the function attributes, the checkpoint files by path, the
  directories created, and the file descriptors that are open on a regular file. Only
  files written by \<^verbatim>\<open>torch.save\<close> are on the modelled disk, and the disk never fails.
\<close>

record world =
  hidden :: attrs
  files :: "string \<rightharpoonup> state_dict"
  dirs :: "string set"
  regular_fds :: "int set"

datatype io_event = MakeDirs string | TorchSave string state_dict

record outcome =
  raised :: "pyerror option"
  events :: "io_event list"
  world_after :: world

section \<open>Paths\<close>

text \<open>\<^verbatim>\<open>os.path.join(a, b)\<close> of posixpath, for two components.\<close>

definition os_path_join :: "string \<Rightarrow> string \<Rightarrow> string" where
  "os_path_join a b =
     (case b of
        c # cs \<Rightarrow>
          (if c = CHR ''/'' then b
           else if a = [] \<or> last a = CHR ''/'' then a @ b
           else a @ ''/'' @ b)
      | [] \<Rightarrow> (if a = [] \<or> last a = CHR ''/'' then a @ b else a @ ''/'' @ b))"

text \<open>\<^verbatim>\<open>str(n)\<close> of a non-negative int, in decimal.\<close>

definition decimal_digits :: string where
  "decimal_digits = ''0123456789''"

definition digit_char :: "nat \<Rightarrow> char" where
  "digit_char d = decimal_digits ! d"

function str_nat :: "nat \<Rightarrow> string" where
  "str_nat n = (if n < 10 then [digit_char n] else str_nat (n div 10) @ [digit_char (n mod 10)])"
  by pat_completeness auto
termination
  by (relation "measure (\<lambda>n. n)") auto

declare str_nat.simps [simp del]

text \<open>\<^verbatim>\<open>"{}".format(step)\<close> of an int.\<close>

definition str_int :: "int \<Rightarrow> string" where
  "str_int i = (if i < 0 then CHR ''-'' # str_nat (nat (- i)) else str_nat (nat i))"

definition step_file :: "int \<Rightarrow> string" where
  "step_file step = ''checkpoint'' @ str_int step @ ''.pt''"

definition os_path_isfile :: "world \<Rightarrow> string \<Rightarrow> bool" where
  "os_path_isfile w p = (files w p \<noteq> None)"

text \<open>
  \<^verbatim>\<open>os.path.isfile\<close> of a bool: \<^verbatim>\<open>os.stat\<close> reads an int as an open file
  descriptor, and \<^verbatim>\<open>True\<close> is the int 1, \<^verbatim>\<open>False\<close> the int 0.
\<close>

definition os_path_isfile_bool :: "world \<Rightarrow> bool \<Rightarrow> bool" where
  "os_path_isfile_bool w b = ((if b then 1 else 0) \<in> regular_fds w)"

text \<open>
  \<^verbatim>\<open>os.makedirs(d, exist_ok=True)\<close>: the directory is there afterwards; the parents it
  creates on the way are not listed apart.
\<close>

definition os_makedirs :: "string \<Rightarrow> world \<Rightarrow> world" where
  "os_makedirs d w = w\<lparr>dirs := insert d (dirs w)\<rparr>"

definition torch_save :: "state_dict \<Rightarrow> string \<Rightarrow> world \<Rightarrow> world" where
  "torch_save sd p w = w\<lparr>files := (files w)(p \<mapsto> sd)\<rparr>"

section \<open>\<^verbatim>\<open>save_checkpoint\<close>\<close>

text \<open>
  Lines 89 and 112:
  \<^verbatim>\<open>(score < best_score and mode == "min") or (score > best_score and mode == "max")\<close>.
  Comparing \<^verbatim>\<open>None\<close> with anything raises TypeError.
\<close>

definition improved :: "pyval \<Rightarrow> pyval \<Rightarrow> string \<Rightarrow> pyerror + bool" where
  "improved score best mode =
     (case score of
        PyNone \<Rightarrow> Inl TypeError
      | PyFloat s \<Rightarrow>
          (case best of
             PyNone \<Rightarrow> Inl TypeError
           | PyFloat b \<Rightarrow>
               Inr ((float_lt s b \<and> mode = ''min'') \<or> (float_lt b s \<and> mode = ''max''))))"

text \<open>
  Lines 98 to 108: the dictionary \<^verbatim>\<open>state_dict\<close>, built from the arguments and from the
  attributes \<open>h\<close> as they are after lines 84 to 91; \<open>bs\<close> is the value of the attribute
  \<^verbatim>\<open>best_step\<close>, which line 102 reads with no default.
\<close>

definition checkpoint_record ::
  "args \<Rightarrow> int \<Rightarrow> blob pyarg \<Rightarrow> blob pyarg \<Rightarrow> blob pyarg \<Rightarrow> pyval \<Rightarrow> attrs \<Rightarrow> int \<Rightarrow>
   state_dict" where
  "checkpoint_record a step model optimizer scheduler score h bs =
     \<lparr>sd_step = Some step,
      sd_score = Some score,
      sd_last_step = last_step h,
      sd_best_step = Some bs,
      sd_best_score = Some (case best_score h of None \<Rightarrow> PyNone | Some b \<Rightarrow> b),
      sd_model = as_list model,
      sd_optimizer = as_list optimizer,
      sd_scheduler = as_list scheduler,
      sd_args = Some a\<rparr>"

text \<open>Lines 111, 113 and 115: the three paths under \<^verbatim>\<open>args.checkpoint_dir\<close>.\<close>

definition step_path :: "args \<Rightarrow> int \<Rightarrow> string" where
  "step_path a step = os_path_join (checkpoint_dir a) (step_file step)"

definition best_path :: "args \<Rightarrow> string" where
  "best_path a = os_path_join (checkpoint_dir a) ''checkpoint_best.pt''"

definition last_path :: "args \<Rightarrow> string" where
  "last_path a = os_path_join (checkpoint_dir a) ''checkpoint_last.pt''"

text \<open>
  Lines 94 to 115, entered when \<^verbatim>\<open>not args.no_save and step % args.save_interval == 0\<close>.
  \<open>best\<close> and \<open>prev\<close> are the locals \<^verbatim>\<open>best_score\<close> and \<^verbatim>\<open>last_step\<close> read
  before the attributes were updated. Reading the attribute \<^verbatim>\<open>best_step\<close> at line 102
  raises AttributeError when it was never set. The three \<^verbatim>\<open>torch.save\<close> calls run in
  the order of the source and write the same dictionary.
\<close>

definition write_checkpoints ::
  "args \<Rightarrow> int \<Rightarrow> blob pyarg \<Rightarrow> blob pyarg \<Rightarrow> blob pyarg \<Rightarrow> pyval \<Rightarrow> string \<Rightarrow>
   pyval \<Rightarrow> int \<Rightarrow> world \<Rightarrow> outcome" where
  "write_checkpoints a step model optimizer scheduler score mode best prev w =
     (let d = checkpoint_dir a;
          w1 = os_makedirs d w
      in case best_step (hidden w1) of
           None \<Rightarrow> \<lparr>raised = Some AttributeError, events = [MakeDirs d], world_after = w1\<rparr>
         | Some bs \<Rightarrow>
             (let sd = checkpoint_record a step model optimizer scheduler score (hidden w1) bs;
                  p1 = (if step_checkpoints a then [step_path a step] else [])
              in case improved score best mode of
                   Inl e \<Rightarrow>
                     \<lparr>raised = Some e,
                      events = MakeDirs d # map (\<lambda>p. TorchSave p sd) p1,
                      world_after = fold (torch_save sd) p1 w1\<rparr>
                 | Inr better \<Rightarrow>
                     (let p2 = (if better then [best_path a] else []);
                          p3 = (if step > prev then [last_path a] else [])
                      in \<lparr>raised = None,
                          events = MakeDirs d # map (\<lambda>p. TorchSave p sd) (p1 @ p2 @ p3),
                          world_after = fold (torch_save sd) (p1 @ p2 @ p3) w1\<rparr>)))"

text \<open>Line 84: \<^verbatim>\<open>getattr(save_checkpoint, "last_step", -1)\<close>.\<close>

definition getattr_last_step :: "world \<Rightarrow> int" where
  "getattr_last_step w = (case last_step (hidden w) of None \<Rightarrow> - 1 | Some l \<Rightarrow> l)"

text \<open>
  Lines 87 and 88: \<^verbatim>\<open>getattr(save_checkpoint, "best_score", default_score)\<close>, with
  \<^verbatim>\<open>default_score = float("inf") if mode == "min" else float("-inf")\<close>.
\<close>

definition default_score :: "string \<Rightarrow> pyval" where
  "default_score mode = PyFloat (if mode = ''min'' then PosInf else NegInf)"

definition getattr_best_score :: "string \<Rightarrow> world \<Rightarrow> pyval" where
  "getattr_best_score mode w =
     (case best_score (hidden w) of None \<Rightarrow> default_score mode | Some b \<Rightarrow> b)"

text \<open>
  The whole function. The attributes set before an exception stay set, so the world the
  outcome carries is the one at the point of the raise.
\<close>

definition save_checkpoint ::
  "args \<Rightarrow> int \<Rightarrow> blob pyarg \<Rightarrow> blob pyarg \<Rightarrow> blob pyarg \<Rightarrow> pyval \<Rightarrow> string \<Rightarrow>
   world \<Rightarrow> outcome" where
  "save_checkpoint a step model optimizer scheduler score mode w =
     (if \<not> (mode = ''min'' \<or> mode = ''max'')
      then \<lparr>raised = Some AssertionError, events = [], world_after = w\<rparr>
      else
        (let prev = getattr_last_step w;
             w1 = w\<lparr>hidden := (hidden w)\<lparr>last_step := Some (max prev step)\<rparr>\<rparr>;
             best = getattr_best_score mode w1
         in case improved score best mode of
              Inl e \<Rightarrow> \<lparr>raised = Some e, events = [], world_after = w1\<rparr>
            | Inr better \<Rightarrow>
                (let w2 = (if better
                           then w1\<lparr>hidden :=
                                  (hidden w1)\<lparr>best_step := Some step, best_score := Some score\<rparr>\<rparr>
                           else w1)
                 in if no_save a
                    then \<lparr>raised = None, events = [], world_after = w2\<rparr>
                    else if save_interval a = 0
                    then \<lparr>raised = Some ZeroDivisionError, events = [], world_after = w2\<rparr>
                    else if step mod save_interval a = 0
                    then write_checkpoints a step model optimizer scheduler score mode best prev w2
                    else \<lparr>raised = None, events = [], world_after = w2\<rparr>)))"

section \<open>\<^verbatim>\<open>load_checkpoint\<close>\<close>

text \<open>
  Lines 130 to 138, for one of model, optimizer, scheduler:
  \<^verbatim>\<open>for m, state in zip(model, state_dict["model"]): m.load_state_dict(state)\<close>.
  \<^verbatim>\<open>zip\<close> stops at the shorter list; the objects beyond it keep their state.
\<close>

fun load_state_dicts :: "blob list option \<Rightarrow> blob list option \<Rightarrow> blob list option" where
  "load_state_dicts (Some ms) (Some ss) = Some (map snd (zip ms ss) @ drop (length ss) ms)"
| "load_state_dicts ms ss = ms"

text \<open>
  The function returns the dictionary, or \<^verbatim>\<open>None\<close> when \<^verbatim>\<open>restore_file\<close> is unset
  or is not a file; the result also carries the states of the objects passed in, which
  \<^verbatim>\<open>load_state_dict\<close> mutates, and the process. \<^verbatim>\<open>os.path.isfile\<close> of line 119
  holds when the disk has a file at the path. The \<^verbatim>\<open>logging.info\<close> line of line 140
  is not modelled.
\<close>

record load_result =
  returned :: "state_dict option"
  models :: "blob list option"
  optimizers :: "blob list option"
  schedulers :: "blob list option"
  world_loaded :: world

definition load_checkpoint ::
  "args \<Rightarrow> blob pyarg \<Rightarrow> blob pyarg \<Rightarrow> blob pyarg \<Rightarrow> world \<Rightarrow> load_result" where
  "load_checkpoint a model optimizer scheduler w =
     (let skip = \<lparr>returned = None, models = as_list model, optimizers = as_list optimizer,
                  schedulers = as_list scheduler, world_loaded = w\<rparr>
      in case restore_file a of
           None \<Rightarrow> skip
         | Some p \<Rightarrow>
             (case files w p of
                None \<Rightarrow> skip
              | Some sd \<Rightarrow>
                  (let h1 = (case sd_best_score sd of
                               None \<Rightarrow> hidden w
                             | Some b \<Rightarrow> (hidden w)\<lparr>best_score := Some b\<rparr>);
                       h2 = (case sd_last_step sd of
                               None \<Rightarrow> h1
                             | Some l \<Rightarrow> h1\<lparr>last_step := Some l\<rparr>)
                   in \<lparr>returned = Some sd,
                       models = load_state_dicts (as_list model) (sd_model sd),
                       optimizers = load_state_dicts (as_list optimizer) (sd_optimizer sd),
                       schedulers = load_state_dicts (as_list scheduler) (sd_scheduler sd),
                       world_loaded = w\<lparr>hidden := h2\<rparr>\<rparr>)))"

section \<open>Runs of \<^verbatim>\<open>save_checkpoint\<close>\<close>

text \<open>The paths of the \<^verbatim>\<open>torch.save\<close> calls among the events of a call, in order.\<close>

fun written_paths :: "io_event list \<Rightarrow> string list" where
  "written_paths [] = []"
| "written_paths (MakeDirs d # es) = written_paths es"
| "written_paths (TorchSave p sd # es) = p # written_paths es"

text \<open>
  The paths lines 110 to 115 write when the call gets there: \<open>better\<close> is the value of the
  comparison of line 112 and \<open>prev\<close> the local \<^verbatim>\<open>last_step\<close>.
\<close>

definition checkpoint_paths :: "args \<Rightarrow> int \<Rightarrow> bool \<Rightarrow> int \<Rightarrow> string list" where
  "checkpoint_paths a step better prev =
     (if step_checkpoints a then [step_path a step] else [])
     @ (if better then [best_path a] else [])
     @ (if step > prev then [last_path a] else [])"

text \<open>Whether a call assigned the attributes \<^verbatim>\<open>best_score\<close> and \<^verbatim>\<open>best_step\<close>.\<close>

definition updated :: "world \<Rightarrow> world \<Rightarrow> bool" where
  "updated w w' =
     ((best_score (hidden w'), best_step (hidden w')) \<noteq> (best_score (hidden w), best_step (hidden w)))"

text \<open>
  A sequence of calls in one process, each given as its step and its score; the attributes
  persist from one call to the next, also after a call that raised. \<open>save_all\<close> lists the
  world after each call, \<open>update_flags\<close> whether each call assigned the best pair.
\<close>

fun save_all ::
  "args \<Rightarrow> blob pyarg \<Rightarrow> blob pyarg \<Rightarrow> blob pyarg \<Rightarrow> string \<Rightarrow> (int \<times> pyfloat) list \<Rightarrow>
   world \<Rightarrow> world list" where
  "save_all a model optimizer scheduler mode [] w = []"
| "save_all a model optimizer scheduler mode ((step, score) # calls) w =
     (let w' = world_after (save_checkpoint a step model optimizer scheduler (PyFloat score) mode w)
      in w' # save_all a model optimizer scheduler mode calls w')"

fun update_flags ::
  "args \<Rightarrow> blob pyarg \<Rightarrow> blob pyarg \<Rightarrow> blob pyarg \<Rightarrow> string \<Rightarrow> (int \<times> pyfloat) list \<Rightarrow>
   world \<Rightarrow> bool list" where
  "update_flags a model optimizer scheduler mode [] w = []"
| "update_flags a model optimizer scheduler mode ((step, score) # calls) w =
     (let w' = world_after (save_checkpoint a step model optimizer scheduler (PyFloat score) mode w)
      in updated w w' # update_flags a model optimizer scheduler mode calls w')"

text \<open>A process that has just started, on an empty disk, and a configuration.\<close>

definition fresh_world :: world where
  "fresh_world = \<lparr>hidden = fresh_attrs, files = Map.empty, dirs = {}, regular_fds = {}\<rparr>"

definition example_args :: args where
  "example_args =
     \<lparr>no_save = False, save_interval = 5, checkpoint_dir = ''exp/checkpoints'',
      step_checkpoints = True, restore_file = Some ''exp/checkpoints/checkpoint_last.pt'',
      no_log = False, log_file = Some ''exp/logs/train.log'', resume_training = True\<rparr>"

text \<open>The process after its first save, of step 10 with score 0.5.\<close>

definition saved_once :: world where
  "saved_once =
     world_after
       (save_checkpoint example_args 10 NoArg NoArg NoArg (PyFloat (Fin 0.5)) ''min'' fresh_world)"

text \<open>
  A new process on the disk that this save left, after \<^verbatim>\<open>load_checkpoint\<close> of
  \<^verbatim>\<open>checkpoint_last.pt\<close>.
\<close>

definition resumed_world :: world where
  "resumed_world =
     world_loaded (load_checkpoint example_args NoArg NoArg NoArg
       (saved_once\<lparr>hidden := fresh_attrs\<rparr>))"

section \<open>\<^verbatim>\<open>init_logging\<close>\<close>

text \<open>
  The handlers passed to \<^verbatim>\<open>logging.basicConfig\<close>: the stream handler, and the file
  handler on \<^verbatim>\<open>args.log_file\<close> with the mode of line 73,
  \<^verbatim>\<open>"a" if os.path.isfile(args.resume_training) else "w"\<close>. \<^verbatim>\<open>--resume-training\<close> is
  a \<^verbatim>\<open>store_true\<close> flag, so the argument of \<^verbatim>\<open>os.path.isfile\<close> is a bool. The two
  \<^verbatim>\<open>logging.info\<close> lines that follow are not modelled.
\<close>

datatype level = INFO | DEBUG

datatype handler = StreamHandler level | FileHandler string string level

definition init_logging :: "args \<Rightarrow> world \<Rightarrow> handler list" where
  "init_logging a w =
     StreamHandler INFO #
     (if no_log a then []
      else case log_file a of
             None \<Rightarrow> []
           | Some f \<Rightarrow>
               [FileHandler f (if os_path_isfile_bool w (resume_training a) then ''a'' else ''w'')
                  DEBUG])"

section \<open>\<^verbatim>\<open>bool_mask\<close>\<close>

text \<open>
  A one-dimensional tensor is a list, a two-dimensional one the list of its rows.
  \<^verbatim>\<open>unsqueeze(-1)\<close> turns a vector of length T into T rows of one entry,
  \<^verbatim>\<open>unsqueeze(0)\<close> into one row.
\<close>

definition unsqueeze_last :: "'a list \<Rightarrow> 'a list list" where
  "unsqueeze_last xs = map (\<lambda>x. [x]) xs"

definition unsqueeze_first :: "'a list \<Rightarrow> 'a list list" where
  "unsqueeze_first xs = [xs]"

text \<open>
  \<^verbatim>\<open>expand\<close> along one dimension: a dimension of size one is repeated, any other must
  already have the size asked for (torch raises RuntimeError otherwise).
\<close>

fun expand_dim :: "nat \<Rightarrow> 'a list \<Rightarrow> 'a list option" where
  "expand_dim n [x] = Some (replicate n x)"
| "expand_dim n xs = (if length xs = n then Some xs else None)"

definition expand :: "nat \<Rightarrow> nat \<Rightarrow> 'a list list \<Rightarrow> 'a list list option" where
  "expand r c m =
     (case expand_dim r m of
        None \<Rightarrow> None
      | Some rows \<Rightarrow> those (map (expand_dim c) rows))"

definition torch_eq :: "'a list list \<Rightarrow> 'a list list \<Rightarrow> bool list list" where
  "torch_eq x y = map2 (\<lambda>r s. map2 (\<lambda>u v. u = v) r s) x y"

datatype mask_tensor = BoolMask "bool list list" | FloatMask "real list list"

definition bool_mask :: "int list \<Rightarrow> int list \<Rightarrow> bool \<Rightarrow> pyerror + mask_tensor" where
  "bool_mask target context as_float =
     (let num_targets = length target;
          num_contexts = length context
      in case expand num_targets num_contexts (unsqueeze_last target) of
           None \<Rightarrow> Inl RuntimeError
         | Some t \<Rightarrow>
             (case expand num_targets num_contexts (unsqueeze_first context) of
                None \<Rightarrow> Inl RuntimeError
              | Some c \<Rightarrow>
                  (let m = torch_eq t c
                   in if as_float
                      then Inr (FloatMask (map (map (\<lambda>b. if b then 1 else 0)) m))
                      else Inr (BoolMask m))))"

section \<open>\<^verbatim>\<open>connectivity\<close>\<close>

text \<open>
  \<^verbatim>\<open>F.normalize(x, p=1, dim=1)\<close> divides each row by \<^verbatim>\<open>max(sum |x|, 1e-12)\<close>, and
  \<^verbatim>\<open>nn.PairwiseDistance(p=2.0)\<close> of two rows is the Euclidean norm of
  \<^verbatim>\<open>x - y + 1e-6\<close>. The arithmetic is that of the reals. The docstring gives both
  matrices the same shape; torch raises RuntimeError on rows it cannot pair.
\<close>

definition normalize_row :: "real list \<Rightarrow> real list" where
  "normalize_row r = map (\<lambda>x. x / max (sum_list (map abs r)) (1 / 10 ^ 12)) r"

definition pairwise_distance :: "real list \<Rightarrow> real list \<Rightarrow> real" where
  "pairwise_distance x y = sqrt (sum_list (map2 (\<lambda>u v. (u - v + 1 / 10 ^ 6)\<^sup>2) x y))"

text \<open>\<^verbatim>\<open>torch.unique\<close>: the distinct values, sorted.\<close>

definition torch_unique :: "int list \<Rightarrow> int list" where
  "torch_unique xs = sort (remdups xs)"

text \<open>\<^verbatim>\<open>(target_labels == i).nonzero()\<close>: the positions that hold the label.\<close>

definition nonzero_eq :: "int list \<Rightarrow> int \<Rightarrow> nat list" where
  "nonzero_eq target_labels i = filter (\<lambda>k. target_labels ! k = i) [0..<length target_labels]"

text \<open>
  Lines 170 to 173 for one label. \<^verbatim>\<open>itemgetter(*indices)\<close> with no index raises
  TypeError, an index beyond \<^verbatim>\<open>gc\<close> raises IndexError, and the division of line 173
  raises ZeroDivisionError when \<^verbatim>\<open>len(scores)\<close> is zero.
\<close>

definition label_mean :: "real list \<Rightarrow> int list \<Rightarrow> int \<Rightarrow> pyerror + real" where
  "label_mean gc target_labels i =
     (let indices = nonzero_eq target_labels i
      in if indices = [] then Inl TypeError
         else if list_ex (\<lambda>k. length gc \<le> k) indices then Inl IndexError
         else (let scores = map (\<lambda>k. gc ! k) indices
               in if length scores = 0 then Inl ZeroDivisionError
                  else Inr (sum_list scores / real (length scores))))"

text \<open>The loop of line 169; the dictionary is the list of its items in insertion order.\<close>

fun label_loop :: "real list \<Rightarrow> int list \<Rightarrow> int list \<Rightarrow> pyerror + (int \<times> real) list" where
  "label_loop gc target_labels [] = Inr []"
| "label_loop gc target_labels (i # rest) =
     (case label_mean gc target_labels i of
        Inl e \<Rightarrow> Inl e
      | Inr v \<Rightarrow>
          (case label_loop gc target_labels rest of
             Inl e \<Rightarrow> Inl e
           | Inr items \<Rightarrow> Inr ((i, v) # items)))"

text \<open>Line 168: the distance of each row of the mask to the same row of the graph.\<close>

definition row_distances :: "real list list \<Rightarrow> real list list \<Rightarrow> real list" where
  "row_distances msk graph =
     map2 pairwise_distance (map normalize_row msk) (map normalize_row graph)"

definition connectivity ::
  "real list list \<Rightarrow> real list list \<Rightarrow> int list \<Rightarrow> pyerror + (int \<times> real) list" where
  "connectivity msk graph target_labels =
     (if map length msk \<noteq> map length graph then Inl RuntimeError
      else (let gc = row_distances msk graph
            in label_loop gc target_labels (torch_unique target_labels)))"

text \<open>The quotient of line 173 for a label, the mean of its rows' distances.\<close>

definition group_mean :: "real list \<Rightarrow> int list \<Rightarrow> int \<Rightarrow> real" where
  "group_mean gc target_labels i =
     sum_list (map (\<lambda>k. gc ! k) (nonzero_eq target_labels i))
       / real (length (nonzero_eq target_labels i))"

text \<open>Reading a decimal numeral back, to show that \<open>str_nat\<close> loses nothing.\<close>

definition digit_val :: "char \<Rightarrow> nat" where
  "digit_val c = of_char c - 48"

definition nat_of_digits :: "string \<Rightarrow> nat" where
  "nat_of_digits cs = foldl (\<lambda>n c. 10 * n + digit_val c) 0 cs"

section \<open>Basic facts about the effects\<close>

lemma hidden_torch_save [simp]: "hidden (torch_save sd p w) = hidden w"
  by (simp add: torch_save_def)

lemma hidden_fold_torch_save [simp]: "hidden (fold (torch_save sd) ps w) = hidden w"
  by (induction ps arbitrary: w) simp_all

lemma dirs_torch_save [simp]: "dirs (torch_save sd p w) = dirs w"
  by (simp add: torch_save_def)

lemma dirs_fold_torch_save [simp]: "dirs (fold (torch_save sd) ps w) = dirs w"
  by (induction ps arbitrary: w) simp_all

lemma files_fold_torch_save:
  "files (fold (torch_save sd) ps w) p = (if p \<in> set ps then Some sd else files w p)"
  by (induction ps arbitrary: w) (auto simp: torch_save_def)

lemma hidden_os_makedirs [simp]: "hidden (os_makedirs d w) = hidden w"
  by (simp add: os_makedirs_def)

lemma files_os_makedirs [simp]: "files (os_makedirs d w) = files w"
  by (simp add: os_makedirs_def)

lemma written_paths_map [simp]: "written_paths (map (\<lambda>p. TorchSave p sd) ps) = ps"
  by (induction ps) simp_all

lemma checkpoint_record_sel [simp]:
  "sd_last_step (checkpoint_record a step m opt s score h bs) = last_step h"
  "sd_best_step (checkpoint_record a step m opt s score h bs) = Some bs"
  "sd_best_score (checkpoint_record a step m opt s score h bs)
     = Some (case best_score h of None \<Rightarrow> PyNone | Some b \<Rightarrow> b)"
  by (simp_all add: checkpoint_record_def)

lemma write_checkpoints_hidden [simp]:
  "hidden (world_after (write_checkpoints a step m opt s score mode best prev w)) = hidden w"
  by (simp add: write_checkpoints_def Let_def split: option.split sum.split)

lemma getattr_best_score_last_step [simp]:
  "getattr_best_score mode (w\<lparr>hidden := (hidden w)\<lparr>last_step := x\<rparr>\<rparr>) = getattr_best_score mode w"
  by (simp add: getattr_best_score_def)

lemma getattr_fresh:
  "hidden w = fresh_attrs \<Longrightarrow> getattr_last_step w = - 1"
  "hidden w = fresh_attrs \<Longrightarrow> getattr_best_score mode w = default_score mode"
  by (simp_all add: getattr_last_step_def getattr_best_score_def fresh_attrs_def)

lemma improved_default_fin:
  "mode = ''min'' \<or> mode = ''max'' \<Longrightarrow>
   improved (PyFloat (Fin x)) (default_score mode) mode = Inr True"
  by (auto simp: improved_def default_score_def)

section \<open>What one call of \<^verbatim>\<open>save_checkpoint\<close> does\<close>

lemma save_checkpoint_last_step:
  assumes "mode = ''min'' \<or> mode = ''max''"
  shows "last_step (hidden (world_after (save_checkpoint a step m opt s score mode w)))
         = Some (max (getattr_last_step w) step)"
  using assms
  by (simp add: save_checkpoint_def Let_def split: sum.split)

lemma save_checkpoint_best:
  assumes "mode = ''min'' \<or> mode = ''max''"
  shows "(best_score (hidden (world_after (save_checkpoint a step m opt s score mode w))),
          best_step (hidden (world_after (save_checkpoint a step m opt s score mode w))))
         = (if improved score (getattr_best_score mode w) mode = Inr True
            then (Some score, Some step)
            else (best_score (hidden w), best_step (hidden w)))"
  using assms
  by (simp add: save_checkpoint_def Let_def split: sum.split)

text \<open>The outcome of a call that gets to the three writes, as one equation.\<close>

lemma save_checkpoint_writes_eq:
  assumes mode: "mode = ''min'' \<or> mode = ''max''"
    and io: "\<not> no_save a" "save_interval a \<noteq> 0" "step mod save_interval a = 0"
    and cmp: "improved score (getattr_best_score mode w) mode = Inr better"
    and bs: "(if better then Some step else best_step (hidden w)) = Some bs"
  shows "save_checkpoint a step m opt s score mode w =
     (let h1 = (hidden w)\<lparr>last_step := Some (max (getattr_last_step w) step)\<rparr>;
          h2 = (if better then h1\<lparr>best_step := Some step, best_score := Some score\<rparr> else h1);
          sd = checkpoint_record a step m opt s score h2 bs;
          ps = (if step_checkpoints a then [step_path a step] else [])
               @ (if better then [best_path a] else [])
               @ (if step > getattr_last_step w then [last_path a] else [])
      in \<lparr>raised = None,
          events = MakeDirs (checkpoint_dir a) # map (\<lambda>p. TorchSave p sd) ps,
          world_after = fold (torch_save sd) ps
             (os_makedirs (checkpoint_dir a) (w\<lparr>hidden := h2\<rparr>))\<rparr>)"
  using assms
  by (cases better) (simp_all add: save_checkpoint_def Let_def write_checkpoints_def)

text \<open>The same outcome, read field by field.\<close>

lemma save_checkpoint_writes:
  assumes mode: "mode = ''min'' \<or> mode = ''max''"
    and io: "\<not> no_save a" "save_interval a \<noteq> 0" "step mod save_interval a = 0"
    and cmp: "improved score (getattr_best_score mode w) mode = Inr better"
    and bs: "(if better then Some step else best_step (hidden w)) = Some bs"
    and out: "out = save_checkpoint a step m opt s score mode w"
    and sd: "sd = checkpoint_record a step m opt s score (hidden (world_after out)) bs"
    and ps: "ps = checkpoint_paths a step better (getattr_last_step w)"
  shows "raised out = None"
    and "events out = MakeDirs (checkpoint_dir a) # map (\<lambda>p. TorchSave p sd) ps"
    and "files (world_after out) p = (if p \<in> set ps then Some sd else files w p)"
    and "dirs (world_after out) = insert (checkpoint_dir a) (dirs w)"
proof -
  note eq = save_checkpoint_writes_eq [OF mode io cmp bs, of m opt s]
  show "raised out = None"
    by (simp add: out eq Let_def)
  have h: "hidden (world_after out) =
      (if better
       then (hidden w)\<lparr>last_step := Some (max (getattr_last_step w) step),
                       best_step := Some step, best_score := Some score\<rparr>
       else (hidden w)\<lparr>last_step := Some (max (getattr_last_step w) step)\<rparr>)"
    by (simp add: out eq Let_def)
  show "events out = MakeDirs (checkpoint_dir a) # map (\<lambda>p. TorchSave p sd) ps"
    unfolding sd h ps checkpoint_paths_def by (simp add: out eq Let_def)
  show "files (world_after out) p = (if p \<in> set ps then Some sd else files w p)"
    unfolding sd h ps checkpoint_paths_def
    by (simp add: out eq Let_def files_fold_torch_save del: fold_append fold_simps)
  show "dirs (world_after out) = insert (checkpoint_dir a) (dirs w)"
    by (simp add: out eq Let_def os_makedirs_def del: fold_append fold_simps)
qed

text \<open>The call that finds no \<^verbatim>\<open>best_step\<close> attribute at line 102.\<close>

lemma save_checkpoint_attribute_error:
  assumes mode: "mode = ''min'' \<or> mode = ''max''"
    and io: "\<not> no_save a" "save_interval a \<noteq> 0" "step mod save_interval a = 0"
    and cmp: "improved score (getattr_best_score mode w) mode = Inr False"
    and bs: "best_step (hidden w) = None"
  shows "save_checkpoint a step m opt s score mode w =
     \<lparr>raised = Some AttributeError,
      events = [MakeDirs (checkpoint_dir a)],
      world_after = os_makedirs (checkpoint_dir a)
        (w\<lparr>hidden := (hidden w)\<lparr>last_step := Some (max (getattr_last_step w) step)\<rparr>\<rparr>)\<rparr>"
  using assms
  by (simp add: save_checkpoint_def Let_def write_checkpoints_def)

lemma example_save_events:
  "written_paths (events
      (save_checkpoint example_args 10 NoArg NoArg NoArg (PyFloat (Fin 0.5)) ''min'' fresh_world))
   = [step_path example_args 10, best_path example_args, last_path example_args]"
  by (simp add: save_checkpoint_def write_checkpoints_def Let_def fresh_world_def fresh_attrs_def
      example_args_def getattr_last_step_def getattr_best_score_def default_score_def improved_def
      os_makedirs_def)

lemma saved_once_hidden:
  "hidden saved_once
     = \<lparr>last_step = Some 10, best_score = Some (PyFloat (Fin 0.5)), best_step = Some 10\<rparr>"
  by (simp add: saved_once_def save_checkpoint_def write_checkpoints_def Let_def fresh_world_def
      fresh_attrs_def example_args_def getattr_last_step_def getattr_best_score_def
      default_score_def improved_def)

section \<open>Saving, then loading\<close>

text \<open>
  Claim C1. In a process whose \<^verbatim>\<open>save_checkpoint\<close> has no attribute yet, a call with
  step 10 and score 0.5, with \<^verbatim>\<open>no_save\<close> unset, \<^verbatim>\<open>save_interval\<close> dividing 10 and
  either mode, returns normally and writes at least \<^verbatim>\<open>checkpoint_best.pt\<close> and
  \<^verbatim>\<open>checkpoint_last.pt\<close>. A later \<^verbatim>\<open>load_checkpoint\<close> whose \<^verbatim>\<open>restore_file\<close> is
  any of the paths written, in this process or in another one on the same disk, sets the
  attributes \<^verbatim>\<open>last_step\<close> to 10 and \<^verbatim>\<open>best_score\<close> to 0.5.
\<close>

theorem save_load_roundtrip:
  assumes fresh: "hidden w = fresh_attrs"
    and io: "\<not> no_save a" "save_interval a dvd 10"
    and mode: "mode = ''min'' \<or> mode = ''max''"
    and written:
      "p \<in> set (written_paths (events (save_checkpoint a 10 m opt s (PyFloat (Fin 0.5)) mode w)))"
    and disk:
      "files w' = files (world_after (save_checkpoint a 10 m opt s (PyFloat (Fin 0.5)) mode w))"
    and restore: "restore_file a' = Some p"
  shows "raised (save_checkpoint a 10 m opt s (PyFloat (Fin 0.5)) mode w) = None
    \<and> {best_path a, last_path a}
        \<subseteq> set (written_paths (events (save_checkpoint a 10 m opt s (PyFloat (Fin 0.5)) mode w)))
    \<and> last_step (hidden (world_loaded (load_checkpoint a' m' opt' s' w'))) = Some 10
    \<and> best_score (hidden (world_loaded (load_checkpoint a' m' opt' s' w')))
        = Some (PyFloat (Fin 0.5))"
proof -
  define sc where "sc = PyFloat (Fin 0.5)"
  define out where "out = save_checkpoint a 10 m opt s sc mode w"
  define sd where "sd = checkpoint_record a 10 m opt s sc (hidden (world_after out)) 10"
  define ps where "ps = checkpoint_paths a 10 True (getattr_last_step w)"
  have si: "save_interval a \<noteq> 0" "10 mod save_interval a = 0"
    using io(2) by auto
  have cmp: "improved sc (getattr_best_score mode w) mode = Inr True"
    using fresh mode by (simp add: sc_def getattr_fresh improved_default_fin)
  have bs: "(if True then Some (10::int) else best_step (hidden w)) = Some 10"
    by simp
  note wr = save_checkpoint_writes [OF mode io(1) si cmp bs out_def sd_def ps_def]
  have ps: "{best_path a, last_path a} \<subseteq> set ps"
    using fresh by (simp add: ps_def checkpoint_paths_def getattr_fresh)
  have "p \<in> set (written_paths (events out))" and d: "files w' = files (world_after out)"
    using written disk unfolding out_def sc_def .
  then have "p \<in> set ps"
    by (simp add: wr(2))
  then have onfile: "files w' p = Some sd"
    by (simp add: d wr(3))
  have "last_step (hidden (world_after out)) = Some 10"
    using fresh by (simp add: out_def save_checkpoint_last_step [OF mode] getattr_fresh)
  moreover have "best_score (hidden (world_after out)) = Some sc"
    using save_checkpoint_best [OF mode, of a 10 m opt s sc w] cmp by (simp add: out_def)
  ultimately have "sd_last_step sd = Some 10" "sd_best_score sd = Some sc"
    by (simp_all add: sd_def)
  then have "last_step (hidden (world_loaded (load_checkpoint a' m' opt' s' w'))) = Some 10
    \<and> best_score (hidden (world_loaded (load_checkpoint a' m' opt' s' w'))) = Some sc"
    using restore onfile by (simp add: load_checkpoint_def Let_def)
  moreover have "raised out = None"
    "{best_path a, last_path a} \<subseteq> set (written_paths (events out))"
    using wr(1) ps by (simp_all add: wr(2))
  ultimately show ?thesis unfolding out_def sc_def by blast
qed

theorem save_load_roundtrip_witness:
  "restore_file example_args = Some (last_path example_args)
   \<and> last_path example_args \<in> set (written_paths (events
        (save_checkpoint example_args 10 NoArg NoArg NoArg (PyFloat (Fin 0.5)) ''min'' fresh_world)))
   \<and> last_step (hidden (world_loaded (load_checkpoint example_args NoArg NoArg NoArg
        (world_after (save_checkpoint example_args 10 NoArg NoArg NoArg (PyFloat (Fin 0.5)) ''min''
           fresh_world))))) = Some 10
   \<and> best_score (hidden (world_loaded (load_checkpoint example_args NoArg NoArg NoArg
        (world_after (save_checkpoint example_args 10 NoArg NoArg NoArg (PyFloat (Fin 0.5)) ''min''
           fresh_world))))) = Some (PyFloat (Fin 0.5))"
proof -
  have h: "hidden fresh_world = fresh_attrs"
    by (simp add: fresh_world_def)
  have a: "\<not> no_save example_args" "save_interval example_args dvd 10"
    by (simp_all add: example_args_def)
  have r: "restore_file example_args = Some (last_path example_args)"
    by (simp add: example_args_def last_path_def os_path_join_def)
  have m: "''min'' = ''min'' \<or> ''min'' = ''max''"
    by simp
  have p: "last_path example_args \<in> set (written_paths (events
        (save_checkpoint example_args 10 NoArg NoArg NoArg (PyFloat (Fin 0.5)) ''min'' fresh_world)))"
    unfolding example_save_events by simp
  from save_load_roundtrip [OF h a m p refl r, of NoArg NoArg NoArg] r p
  show ?thesis by blast
qed

lemma save_checkpoint_no_io:
  assumes mode: "mode = ''min'' \<or> mode = ''max''"
    and skip: "no_save a \<or> save_interval a = 0 \<or> step mod save_interval a \<noteq> 0"
  shows "events (save_checkpoint a step m opt s score mode w) = []"
    and "files (world_after (save_checkpoint a step m opt s score mode w)) = files w"
    and "dirs (world_after (save_checkpoint a step m opt s score mode w)) = dirs w"
  using assms
  by (auto simp add: save_checkpoint_def Let_def split: sum.split)

section \<open>Calls that skip the writes\<close>

text \<open>
  Claim C6. A call with \<^verbatim>\<open>no_save\<close> set, or whose step is not a multiple of
  \<^verbatim>\<open>save_interval\<close>, performs no I/O: it has no event, and the files and the directories
  are those from before the call. The attributes are updated all the same:
  \<^verbatim>\<open>last_step\<close> becomes the maximum of the step and the value the attribute held (-1 when
  it was never set), and \<^verbatim>\<open>best_score\<close> and \<^verbatim>\<open>best_step\<close> become the score and the
  step of the call exactly when the score is strictly below (mode \<^verbatim>\<open>min\<close>) or strictly
  above (mode \<^verbatim>\<open>max\<close>) the value the attribute \<^verbatim>\<open>best_score\<close> held (\<^verbatim>\<open>+inf\<close>,
  resp. \<^verbatim>\<open>-inf\<close>, when it was never set), and are unchanged otherwise.
  (With \<^verbatim>\<open>save_interval\<close> 0 and a step other than 0, line 93 raises ZeroDivisionError,
  after the attributes were updated and before any I/O.)
\<close>

theorem save_checkpoint_skips_io:
  assumes mode: "mode = ''min'' \<or> mode = ''max''"
    and skip: "no_save a \<or> \<not> save_interval a dvd step"
  shows "events (save_checkpoint a step m opt s score mode w) = []
    \<and> files (world_after (save_checkpoint a step m opt s score mode w)) = files w
    \<and> dirs (world_after (save_checkpoint a step m opt s score mode w)) = dirs w
    \<and> last_step (hidden (world_after (save_checkpoint a step m opt s score mode w)))
        = Some (max (case last_step (hidden w) of None \<Rightarrow> - 1 | Some l \<Rightarrow> l) step)
    \<and> (best_score (hidden (world_after (save_checkpoint a step m opt s score mode w))),
        best_step (hidden (world_after (save_checkpoint a step m opt s score mode w))))
        = (if (case score of
                 PyNone \<Rightarrow> False
               | PyFloat x \<Rightarrow>
                   (case (case best_score (hidden w) of
                            None \<Rightarrow> PyFloat (if mode = ''min'' then PosInf else NegInf)
                          | Some b \<Rightarrow> b) of
                      PyNone \<Rightarrow> False
                    | PyFloat b \<Rightarrow>
                        (float_lt x b \<and> mode = ''min'') \<or> (float_lt b x \<and> mode = ''max'')))
           then (Some score, Some step)
           else (best_score (hidden w), best_step (hidden w)))"
proof -
  have "no_save a \<or> save_interval a = 0 \<or> step mod save_interval a \<noteq> 0"
    using skip by (auto simp: mod_eq_0_iff_dvd)
  note io = save_checkpoint_no_io [OF mode this, of m opt s score w]
  have l: "getattr_last_step w = (case last_step (hidden w) of None \<Rightarrow> - 1 | Some l \<Rightarrow> l)"
    by (simp add: getattr_last_step_def)
  have b: "improved score (getattr_best_score mode w) mode = Inr True \<longleftrightarrow>
      (case score of
         PyNone \<Rightarrow> False
       | PyFloat x \<Rightarrow>
           (case (case best_score (hidden w) of
                    None \<Rightarrow> PyFloat (if mode = ''min'' then PosInf else NegInf)
                  | Some b \<Rightarrow> b) of
              PyNone \<Rightarrow> False
            | PyFloat b \<Rightarrow>
                (float_lt x b \<and> mode = ''min'') \<or> (float_lt b x \<and> mode = ''max'')))"
    by (simp add: improved_def getattr_best_score_def default_score_def
        split: pyval.split option.split)
  from io save_checkpoint_last_step [OF mode, of a step m opt s score w]
    save_checkpoint_best [OF mode, of a step m opt s score w]
  show ?thesis
    unfolding l b by blast
qed

theorem save_checkpoint_skips_io_witness:
  "\<not> save_interval example_args dvd 7
   \<and> hidden saved_once
       = \<lparr>last_step = Some 10, best_score = Some (PyFloat (Fin 0.5)), best_step = Some 10\<rparr>
   \<and> events (save_checkpoint example_args 7 NoArg NoArg NoArg (PyFloat (Fin 0.7)) ''min'' saved_once)
       = []
   \<and> files (world_after
        (save_checkpoint example_args 7 NoArg NoArg NoArg (PyFloat (Fin 0.7)) ''min'' saved_once))
       = files saved_once
   \<and> dirs (world_after
        (save_checkpoint example_args 7 NoArg NoArg NoArg (PyFloat (Fin 0.7)) ''min'' saved_once))
       = dirs saved_once
   \<and> hidden (world_after
        (save_checkpoint example_args 7 NoArg NoArg NoArg (PyFloat (Fin 0.7)) ''min'' saved_once))
       = \<lparr>last_step = Some 10, best_score = Some (PyFloat (Fin 0.5)), best_step = Some 10\<rparr>
   \<and> hidden (world_after
        (save_checkpoint example_args 7 NoArg NoArg NoArg (PyFloat (Fin 0.3)) ''min'' saved_once))
       = \<lparr>last_step = Some 10, best_score = Some (PyFloat (Fin 0.3)), best_step = Some 7\<rparr>
   \<and> hidden (world_after
        (save_checkpoint example_args 12 NoArg NoArg NoArg (PyFloat (Fin 0.7)) ''max'' saved_once))
       = \<lparr>last_step = Some 12, best_score = Some (PyFloat (Fin 0.7)), best_step = Some 12\<rparr>
   \<and> hidden (world_after
        (save_checkpoint example_args 7 NoArg NoArg NoArg (PyFloat (Fin 0.5)) ''min'' fresh_world))
       = \<lparr>last_step = Some 7, best_score = Some (PyFloat (Fin 0.5)), best_step = Some 7\<rparr>"
proof -
  have mn: "''min'' = ''min'' \<or> ''min'' = ''max''" and mx: "''max'' = ''min'' \<or> ''max'' = ''max''"
    by simp_all
  have d: "\<not> save_interval example_args dvd 7" "\<not> save_interval example_args dvd 12"
    by (simp_all add: example_args_def)
  then have skip: "no_save example_args \<or> \<not> save_interval example_args dvd 7"
    "no_save example_args \<or> \<not> save_interval example_args dvd 12"
    by simp_all
  have f: "hidden fresh_world = \<lparr>last_step = None, best_score = None, best_step = None\<rparr>"
    by (simp add: fresh_world_def fresh_attrs_def)
  have eq: "h = \<lparr>last_step = l, best_score = b, best_step = t\<rparr>"
    if "last_step h = l" "(best_score h, best_step h) = (b, t)" for h :: attrs and l b t
    using that by (cases h) simp
  note t = save_checkpoint_skips_io [of _ example_args _ NoArg NoArg NoArg]
  have "hidden (world_after
        (save_checkpoint example_args 7 NoArg NoArg NoArg (PyFloat (Fin 0.7)) ''min'' saved_once))
       = \<lparr>last_step = Some 10, best_score = Some (PyFloat (Fin 0.5)), best_step = Some 10\<rparr>"
    using t [OF mn skip(1), of "PyFloat (Fin 0.7)" saved_once]
    by (intro eq) (simp_all add: saved_once_hidden)
  moreover have "hidden (world_after
        (save_checkpoint example_args 7 NoArg NoArg NoArg (PyFloat (Fin 0.3)) ''min'' saved_once))
       = \<lparr>last_step = Some 10, best_score = Some (PyFloat (Fin 0.3)), best_step = Some 7\<rparr>"
    using t [OF mn skip(1), of "PyFloat (Fin 0.3)" saved_once]
    by (intro eq) (simp_all add: saved_once_hidden)
  moreover have "hidden (world_after
        (save_checkpoint example_args 12 NoArg NoArg NoArg (PyFloat (Fin 0.7)) ''max'' saved_once))
       = \<lparr>last_step = Some 12, best_score = Some (PyFloat (Fin 0.7)), best_step = Some 12\<rparr>"
    using t [OF mx skip(2), of "PyFloat (Fin 0.7)" saved_once]
    by (intro eq) (simp_all add: saved_once_hidden)
  moreover have "hidden (world_after
        (save_checkpoint example_args 7 NoArg NoArg NoArg (PyFloat (Fin 0.5)) ''min'' fresh_world))
       = \<lparr>last_step = Some 7, best_score = Some (PyFloat (Fin 0.5)), best_step = Some 7\<rparr>"
    using t [OF mn skip(1), of "PyFloat (Fin 0.5)" fresh_world]
    by (intro eq) (simp_all add: f)
  moreover note t [OF mn skip(1), of "PyFloat (Fin 0.7)" saved_once] d(1) saved_once_hidden
  ultimately show ?thesis by blast
qed

lemma load_checkpoint_best_step:
  "best_step (hidden (world_loaded (load_checkpoint a m opt s w))) = best_step (hidden w)"
  by (simp add: load_checkpoint_def Let_def split: option.split)

section \<open>The attribute \<^verbatim>\<open>best_step\<close> read at line 102\<close>

text \<open>
  Claim C10. A call that gets to the writes (\<^verbatim>\<open>no_save\<close> unset and
  \<^verbatim>\<open>step % save_interval == 0\<close>), with a mode and a score that can be compared, raises
  AttributeError exactly when the attribute \<^verbatim>\<open>best_step\<close> was not set before the call
  and the score of the call does not improve on the best; it has then created the directory
  and written no file. Otherwise it returns normally. \<^verbatim>\<open>load_checkpoint\<close> never sets
  \<^verbatim>\<open>best_step\<close>, so a process that has only loaded a checkpoint is in that state.
\<close>

theorem save_checkpoint_raises_without_best_step:
  assumes mode: "mode = ''min'' \<or> mode = ''max''"
    and io: "\<not> no_save a" "save_interval a \<noteq> 0" "step mod save_interval a = 0"
    and cmp: "improved score (getattr_best_score mode w) mode = Inr better"
  shows "(raised (save_checkpoint a step m opt s score mode w) = Some AttributeError
          \<longleftrightarrow> best_step (hidden w) = None \<and> \<not> better)
    \<and> (if best_step (hidden w) = None \<and> \<not> better
        then written_paths (events (save_checkpoint a step m opt s score mode w)) = []
          \<and> files (world_after (save_checkpoint a step m opt s score mode w)) = files w
        else raised (save_checkpoint a step m opt s score mode w) = None)
    \<and> best_step (hidden (world_loaded (load_checkpoint a' m' opt' s' w'))) = best_step (hidden w')"
proof (cases "best_step (hidden w) = None \<and> \<not> better")
  case True
  then have cmp': "improved score (getattr_best_score mode w) mode = Inr False"
    and bs: "best_step (hidden w) = None"
    using cmp by simp_all
  show ?thesis
    using True
    by (simp add: save_checkpoint_attribute_error [OF mode io cmp' bs] load_checkpoint_best_step)
next
  case False
  then obtain bs where bs: "(if better then Some step else best_step (hidden w)) = Some bs"
    by (cases better) auto
  have "raised (save_checkpoint a step m opt s score mode w) = None"
    by (rule save_checkpoint_writes(1) [OF mode io cmp bs refl refl refl])
  then show ?thesis
    using False by (auto simp add: load_checkpoint_best_step)
qed

lemma resumed_world_hidden:
  "hidden resumed_world
     = \<lparr>last_step = Some 10, best_score = Some (PyFloat (Fin 0.5)), best_step = None\<rparr>"
  by (simp add: resumed_world_def saved_once_def load_checkpoint_def Let_def
      save_checkpoint_def write_checkpoints_def fresh_world_def fresh_attrs_def
      example_args_def getattr_last_step_def getattr_best_score_def default_score_def improved_def
      os_makedirs_def checkpoint_paths_def last_path_def best_path_def step_path_def
      os_path_join_def torch_save_def checkpoint_record_def)


theorem save_checkpoint_raises_without_best_step_witness:
  "raised (save_checkpoint example_args 0 NoArg NoArg NoArg (PyFloat PosInf) ''min'' fresh_world)
     = Some AttributeError
   \<and> best_step (hidden resumed_world) = None
   \<and> raised (save_checkpoint example_args 15 NoArg NoArg NoArg (PyFloat (Fin 0.7)) ''min''
        resumed_world) = Some AttributeError
   \<and> written_paths (events (save_checkpoint example_args 15 NoArg NoArg NoArg (PyFloat (Fin 0.7))
        ''min'' resumed_world)) = []"
proof -
  have m: "''min'' = ''min'' \<or> ''min'' = ''max''"
    by simp
  have io: "\<not> no_save example_args" "save_interval example_args \<noteq> 0"
    "0 mod save_interval example_args = 0" "15 mod save_interval example_args = 0"
    by (simp_all add: example_args_def)
  have c1: "improved (PyFloat PosInf) (getattr_best_score ''min'' fresh_world) ''min'' = Inr False"
    by (simp add: improved_def getattr_best_score_def default_score_def fresh_world_def
        fresh_attrs_def)
  have c2: "improved (PyFloat (Fin 0.7)) (getattr_best_score ''min'' resumed_world) ''min''
      = Inr False"
    by (simp add: improved_def getattr_best_score_def resumed_world_hidden)
  have b: "best_step (hidden fresh_world) = None" "best_step (hidden resumed_world) = None"
    by (simp_all add: fresh_world_def fresh_attrs_def resumed_world_hidden)
  from save_checkpoint_raises_without_best_step [OF m io(1,2,3) c1, of NoArg NoArg NoArg]
    save_checkpoint_raises_without_best_step [OF m io(1,2,4) c2, of NoArg NoArg NoArg] b
  show ?thesis by simp
qed

section \<open>The match mask\<close>

lemma those_map_Some: "those (map (\<lambda>x. Some (f x)) xs) = Some (map f xs)"
  by (induction xs) simp_all

lemma expand_unsqueeze_last:
  "expand (length xs) c (unsqueeze_last xs) = Some (map (\<lambda>x. replicate c x) xs)"
proof -
  have "expand_dim (length xs) (map (\<lambda>x. [x]) xs) = Some (map (\<lambda>x. [x]) xs)"
  proof (cases xs)
    case Nil
    then show ?thesis by simp
  next
    case (Cons x zs)
    then show ?thesis by (cases zs) simp_all
  qed
  then show ?thesis
    by (simp add: expand_def unsqueeze_last_def comp_def those_map_Some)
qed

lemma expand_dim_same: "expand_dim (length ys) ys = Some ys"
proof (cases ys)
  case Nil
  then show ?thesis by simp
next
  case (Cons y zs)
  then show ?thesis by (cases zs) simp_all
qed

lemma expand_unsqueeze_first:
  "expand r (length ys) (unsqueeze_first ys) = Some (replicate r ys)"
proof -
  have "those (map (expand_dim (length ys)) (replicate r ys)) = Some (replicate r ys)"
    by (induction r) (simp_all add: expand_dim_same)
  then show ?thesis
    by (simp add: expand_def unsqueeze_first_def)
qed

lemma torch_eq_expanded:
  "torch_eq (map (\<lambda>x. replicate (length ys) x) xs) (replicate (length xs) ys)
   = map (\<lambda>x. map (\<lambda>y. x = y) ys) xs"
proof -
  have row: "map2 (\<lambda>u v. u = v) (replicate (length ys) x) ys = map (\<lambda>y. x = y) ys" for x
    by (induction ys) simp_all
  have "map2 (\<lambda>r s. map2 (\<lambda>u v. u = v) r s) (map (\<lambda>x. replicate (length ys) x) xs)
          (replicate n ys) = map (\<lambda>x. map (\<lambda>y. x = y) ys) xs" if "n = length xs" for n
    using that by (induction xs arbitrary: n) (auto simp: row)
  then show ?thesis
    by (simp add: torch_eq_def)
qed

lemma bool_mask_eq:
  "bool_mask target context as_float =
     (if as_float
      then Inr (FloatMask (map (\<lambda>t. map (\<lambda>c. if t = c then 1 else 0) context) target))
      else Inr (BoolMask (map (\<lambda>t. map (\<lambda>c. t = c) context) target)))"
  by (simp add: bool_mask_def Let_def expand_unsqueeze_last expand_unsqueeze_first
      torch_eq_expanded comp_def)

text \<open>
  Claim C8. For label sequences \<open>target\<close> of length T and \<open>context\<close> of length C,
  \<^verbatim>\<open>bool_mask\<close> never raises and returns a matrix of T rows of C entries whose entry
  (i, j) is true exactly when \<open>target[i] = context[j]\<close>; with the float flag it returns
  the same matrix with 1 for true and 0 for false. On \<open>[1,2]\<close> and \<open>[2,2,1]\<close> the
  result is \<open>[[false,false,true],[true,true,false]]\<close>.
\<close>

theorem bool_mask_entries:
  "\<exists>m. bool_mask target context False = Inr (BoolMask m)
     \<and> bool_mask target context True = Inr (FloatMask (map (map (\<lambda>b. if b then 1 else 0)) m))
     \<and> length m = length target
     \<and> (\<forall>i<length target. length (m ! i) = length context
          \<and> (\<forall>j<length context. m ! i ! j = (target ! i = context ! j)))
     \<and> bool_mask [1, 2] [2, 2, 1] False
         = Inr (BoolMask [[False, False, True], [True, True, False]])"
proof -
  let ?m = "map (\<lambda>t. map (\<lambda>c. t = c) context) target"
  have "bool_mask target context False = Inr (BoolMask ?m)"
    by (simp add: bool_mask_eq)
  moreover have "bool_mask target context True
      = Inr (FloatMask (map (map (\<lambda>b. if b then 1 else 0)) ?m))"
    by (simp add: bool_mask_eq comp_def)
  moreover have "length ?m = length target"
    by simp
  moreover have "\<forall>i<length target. length (?m ! i) = length context
          \<and> (\<forall>j<length context. ?m ! i ! j = (target ! i = context ! j))"
    by simp
  moreover have "bool_mask [1, 2] [2, 2, 1] False
         = Inr (BoolMask [[False, False, True], [True, True, False]])"
    by (simp add: bool_mask_eq)
  ultimately show ?thesis by blast
qed

theorem bool_mask_entries_witness:
  "bool_mask [1, 2] [2, 2, 1] False = Inr (BoolMask [[False, False, True], [True, True, False]])
   \<and> bool_mask [1, 2] [2, 2, 1] True = Inr (FloatMask [[0, 0, 1], [1, 1, 0]])
   \<and> bool_mask [] [2, 2, 1] False = Inr (BoolMask [])
   \<and> bool_mask [1, 2] [] False = Inr (BoolMask [[], []])"
proof -
  obtain m where m: "bool_mask [1, 2] [2, 2, 1] False = Inr (BoolMask m)"
    "bool_mask [1, 2] [2, 2, 1] True = Inr (FloatMask (map (map (\<lambda>b. if b then 1 else 0)) m))"
    "bool_mask [1, 2] [2, 2, 1] False
         = Inr (BoolMask [[False, False, True], [True, True, False]])"
    using bool_mask_entries [of "[1, 2]" "[2, 2, 1]"] by blast
  from m(1,3) have "m = [[False, False, True], [True, True, False]]"
    by simp
  with m(2,3) show ?thesis
    by (simp add: bool_mask_eq)
qed

section \<open>Label groups of \<^verbatim>\<open>connectivity\<close>\<close>

lemma set_torch_unique [simp]: "set (torch_unique xs) = set xs"
  by (simp add: torch_unique_def)

lemma nonzero_eq_nonempty: "i \<in> set target_labels \<Longrightarrow> nonzero_eq target_labels i \<noteq> []"
proof -
  assume "i \<in> set target_labels"
  then obtain k where "k < length target_labels" "target_labels ! k = i"
    by (auto simp: in_set_conv_nth)
  then have "k \<in> set (nonzero_eq target_labels i)"
    by (simp add: nonzero_eq_def)
  then show ?thesis by auto
qed

lemma nonzero_eq_bound: "k \<in> set (nonzero_eq target_labels i) \<Longrightarrow> k < length target_labels"
  by (simp add: nonzero_eq_def)

lemma label_mean_no_zero_division: "label_mean gc target_labels i \<noteq> Inl ZeroDivisionError"
  by (simp add: label_mean_def Let_def)

lemma label_loop_no_zero_division: "label_loop gc target_labels ls \<noteq> Inl ZeroDivisionError"
proof (induction ls)
  case Nil
  then show ?case by simp
next
  case (Cons i ls)
  then show ?case
    using label_mean_no_zero_division [of gc target_labels i]
    by (auto split: sum.splits)
qed

lemma connectivity_no_zero_division:
  "connectivity msk graph target_labels \<noteq> Inl ZeroDivisionError"
  by (simp add: connectivity_def Let_def label_loop_no_zero_division)

lemma label_mean_ok:
  assumes "i \<in> set target_labels" "length target_labels \<le> length gc"
  shows "label_mean gc target_labels i = Inr (group_mean gc target_labels i)"
proof -
  have "\<not> list_ex (\<lambda>k. length gc \<le> k) (nonzero_eq target_labels i)"
    using nonzero_eq_bound [of _ target_labels i] assms(2) by (fastforce simp: list_ex_iff)
  then show ?thesis
    using nonzero_eq_nonempty [OF assms(1)]
    by (simp add: label_mean_def Let_def group_mean_def)
qed

lemma label_loop_ok:
  assumes "set ls \<subseteq> set target_labels" "length target_labels \<le> length gc"
  shows "label_loop gc target_labels ls = Inr (map (\<lambda>i. (i, group_mean gc target_labels i)) ls)"
  using assms by (induction ls) (simp_all add: label_mean_ok)

text \<open>
  Claim C9, as amended. \<^verbatim>\<open>connectivity\<close> never raises ZeroDivisionError: the labels it
  iterates over are the values of \<^verbatim>\<open>torch.unique(target_labels)\<close>, so each of them has
  at least one row and the divisor \<^verbatim>\<open>len(scores)\<close> is at least one. For two matrices
  of one shape with a row for every label position it returns, for each distinct label in
  ascending order, the mean of the distances of its rows; for an empty \<^verbatim>\<open>target_labels\<close>
  the loop does not run and the result is the empty mapping.
\<close>

theorem connectivity_groups_nonempty:
  "connectivity msk graph target_labels \<noteq> Inl ZeroDivisionError
   \<and> (\<forall>i \<in> set (torch_unique target_labels). nonzero_eq target_labels i \<noteq> [])
   \<and> (map length msk = map length graph \<and> length target_labels \<le> length msk \<longrightarrow>
        connectivity msk graph target_labels
          = Inr (map (\<lambda>i. (i, group_mean (row_distances msk graph) target_labels i))
                   (torch_unique target_labels)))
   \<and> (map length msk = map length graph \<longrightarrow> connectivity msk graph [] = Inr [])"
proof -
  have len: "length (row_distances msk graph) = length msk" if "map length msk = map length graph"
    using map_eq_imp_length_eq [OF that] by (simp add: row_distances_def)
  have "connectivity msk graph target_labels
          = Inr (map (\<lambda>i. (i, group_mean (row_distances msk graph) target_labels i))
                   (torch_unique target_labels))"
    if "map length msk = map length graph" "length target_labels \<le> length msk"
    using that len [OF that(1)]
    by (simp add: connectivity_def Let_def label_loop_ok)
  moreover have "connectivity msk graph [] = Inr []" if "map length msk = map length graph"
    using that by (simp add: connectivity_def Let_def torch_unique_def)
  ultimately show ?thesis
    by (auto simp: connectivity_no_zero_division nonzero_eq_nonempty)
qed

text \<open>
  Claim C9 as stated asks for an input on which a label group is empty and the division of
  line 173 is by zero. There is none.
\<close>

theorem connectivity_zero_division_counterexample:
  "\<not> (\<exists>msk graph target_labels. connectivity msk graph target_labels = Inl ZeroDivisionError)"
  by (simp add: connectivity_no_zero_division)

theorem connectivity_groups_nonempty_witness:
  "torch_unique [3, 3, 1] = [1, 3]
   \<and> nonzero_eq [3, 3, 1] 3 = [0, 1] \<and> nonzero_eq [3, 3, 1] 1 = [2]
   \<and> connectivity [[1, 0], [0, 1], [1, 1]] [[1, 0], [1, 0], [0, 1]] [3, 3, 1]
       = Inr [(1, group_mean (row_distances [[1, 0], [0, 1], [1, 1]] [[1, 0], [1, 0], [0, 1]])
                    [3, 3, 1] 1),
              (3, group_mean (row_distances [[1, 0], [0, 1], [1, 1]] [[1, 0], [1, 0], [0, 1]])
                    [3, 3, 1] 3)]
   \<and> connectivity [[1, 0], [0, 1], [1, 1]] [[1, 0], [1, 0], [0, 1]] [] = Inr []"
proof -
  have u: "torch_unique [3, 3, 1] = [1, 3]"
    by (simp add: torch_unique_def)
  have n: "nonzero_eq [3, 3, 1] 3 = [0, 1]" "nonzero_eq [3, 3, 1] 1 = [2]"
    by (simp_all add: nonzero_eq_def upt_rec)
  have s: "map length [[1, 0], [0, 1], [1, 1 :: real]] = map length [[1, 0], [1, 0], [0, 1 :: real]]"
    "length [3, 3, 1 :: int] \<le> length [[1, 0], [0, 1], [1, 1 :: real]]"
    by simp_all
  from connectivity_groups_nonempty
    [of "[[1, 0], [0, 1], [1, 1]]" "[[1, 0], [1, 0], [0, 1]]" "[3, 3, 1]"] s u n
  show ?thesis by simp
qed

section \<open>The best pair and the last step over a run\<close>

lemma float_lt_irrefl [simp]: "\<not> float_lt x x"
  by (cases x) simp_all

lemma float_le_lt_trans: "float_le x y \<Longrightarrow> float_lt y z \<Longrightarrow> float_lt x z"
  by (cases x; cases y; cases z) auto

lemma float_le_not_lt: "float_le x y \<Longrightarrow> \<not> float_lt y x"
  by (cases x; cases y) auto

lemma improved_min:
  "improved (PyFloat x) (PyFloat b) ''min'' = Inr (float_lt x b)"
  by (simp add: improved_def)

lemma updated_iff_improved:
  "updated w (world_after (save_checkpoint a step m opt s score mode w))
   \<longleftrightarrow> improved score (getattr_best_score mode w) mode = Inr True"
proof (cases "mode = ''min'' \<or> mode = ''max''")
  case False
  then show ?thesis
    by (auto simp: save_checkpoint_def updated_def improved_def split: pyval.splits)
next
  case True
  show ?thesis
  proof (cases "improved score (getattr_best_score mode w) mode = Inr True")
    case no: False
    then show ?thesis
      using save_checkpoint_best [OF True, of a step m opt s score w] by (simp add: updated_def)
  next
    case yes: True
    then obtain x b where xb: "score = PyFloat x" "getattr_best_score mode w = PyFloat b"
      "float_lt x b \<or> float_lt b x"
      by (auto simp: improved_def split: pyval.splits)
    then have "best_score (hidden w) \<noteq> Some score"
      by (auto simp: getattr_best_score_def)
    then show ?thesis
      using yes save_checkpoint_best [OF True, of a step m opt s score w]
      by (simp add: updated_def)
  qed
qed

lemma getattr_best_score_after:
  assumes "mode = ''min'' \<or> mode = ''max''"
  shows "getattr_best_score mode (world_after (save_checkpoint a step m opt s score mode w))
     = (if improved score (getattr_best_score mode w) mode = Inr True then score
        else getattr_best_score mode w)"
  using save_checkpoint_best [OF assms, of a step m opt s score w]
  by (auto simp: getattr_best_score_def split: if_splits)

lemma getattr_last_step_after:
  "getattr_last_step w \<le> getattr_last_step (world_after (save_checkpoint a step m opt s score mode w))"
proof (cases "mode = ''min'' \<or> mode = ''max''")
  case False
  then show ?thesis by (simp add: save_checkpoint_def)
next
  case True
  show ?thesis
    using save_checkpoint_last_step [OF True, of a step m opt s score w]
    by (simp add: getattr_last_step_def [of "world_after _"])
qed

lemma save_all_last_step_sorted:
  "sorted (map getattr_last_step (w # save_all a m opt s mode calls w))"
proof (induction calls arbitrary: w)
  case Nil
  then show ?case by simp
next
  case (Cons c calls)
  obtain step score where c: "c = (step, score)" by (cases c)
  let ?w' = "world_after (save_checkpoint a step m opt s (PyFloat score) mode w)"
  have "getattr_last_step w \<le> getattr_last_step ?w'"
    by (rule getattr_last_step_after)
  with Cons [of ?w'] show ?case
    by (simp add: c Let_def del: sorted_wrt.simps add: sorted2)
qed

lemma min_mode: "''min'' = ''min'' \<or> ''min'' = ''max''"
  by simp

lemma decreasing_all_updated:
  assumes "sorted_wrt (\<lambda>x y. float_lt y x) (s0 # map snd calls)"
    and "improved (PyFloat s0) (getattr_best_score ''min'' w) ''min'' = Inr True"
  shows "update_flags a m opt s ''min'' ((step0, s0) # calls) w = replicate (Suc (length calls)) True"
  using assms
proof (induction calls arbitrary: w step0 s0)
  case Nil
  then show ?case by (simp add: updated_iff_improved)
next
  case (Cons c calls)
  obtain step1 s1 where c: "c = (step1, s1)" by (cases c)
  let ?w' = "world_after (save_checkpoint a step0 m opt s (PyFloat s0) ''min'' w)"
  have "getattr_best_score ''min'' ?w' = PyFloat s0"
    using Cons.prems(2) by (simp add: getattr_best_score_after [OF min_mode])
  moreover have "float_lt s1 s0"
    using Cons.prems(1) by (simp add: c)
  ultimately have imp: "improved (PyFloat s1) (getattr_best_score ''min'' ?w') ''min'' = Inr True"
    by (simp add: improved_min)
  have "sorted_wrt (\<lambda>x y. float_lt y x) (s1 # map snd calls)"
    using Cons.prems(1) by (simp add: c)
  from Cons.IH [OF this imp, of step1]
  have "update_flags a m opt s ''min'' ((step1, s1) # calls) ?w'
      = replicate (Suc (length calls)) True" .
  then show ?case
    using Cons.prems(2)
    by (simp add: c Let_def updated_iff_improved del: update_flags.simps(2)
        add: update_flags.simps(2) [of a m opt s "''min''" step0 s0])
qed

lemma never_improving_none_updated:
  assumes "\<forall>x \<in> set (map snd calls).
      improved (PyFloat x) (getattr_best_score ''min'' w) ''min'' \<noteq> Inr True"
  shows "update_flags a m opt s ''min'' calls w = replicate (length calls) False"
  using assms
proof (induction calls arbitrary: w)
  case Nil
  then show ?case by simp
next
  case (Cons c calls)
  obtain step score where c: "c = (step, score)" by (cases c)
  let ?w' = "world_after (save_checkpoint a step m opt s (PyFloat score) ''min'' w)"
  have no: "improved (PyFloat score) (getattr_best_score ''min'' w) ''min'' \<noteq> Inr True"
    using Cons.prems by (simp add: c)
  then have "getattr_best_score ''min'' ?w' = getattr_best_score ''min'' w"
    by (simp add: getattr_best_score_after [OF min_mode])
  with Cons.prems have "\<forall>x \<in> set (map snd calls).
      improved (PyFloat x) (getattr_best_score ''min'' ?w') ''min'' \<noteq> Inr True"
    by simp
  from Cons.IH [OF this] no show ?case
    by (simp add: c Let_def updated_iff_improved)
qed

lemma nondecreasing_none_updated_after_first:
  assumes "sorted_wrt float_le (map snd calls)"
  shows "tl (update_flags a m opt s ''min'' calls w) = replicate (length calls - 1) False"
proof (cases calls)
  case Nil
  then show ?thesis by simp
next
  case (Cons c rest)
  obtain step1 s1 where c: "c = (step1, s1)" by (cases c)
  let ?w' = "world_after (save_checkpoint a step1 m opt s (PyFloat s1) ''min'' w)"
  have le: "\<forall>x \<in> set (map snd rest). float_le s1 x"
    using assms by (simp add: Cons c)
  have "improved (PyFloat x) (getattr_best_score ''min'' ?w') ''min'' \<noteq> Inr True"
    if "x \<in> set (map snd rest)" for x
  proof (cases "improved (PyFloat s1) (getattr_best_score ''min'' w) ''min'' = Inr True")
    case True
    then have "getattr_best_score ''min'' ?w' = PyFloat s1"
      by (simp add: getattr_best_score_after [OF min_mode])
    moreover have "\<not> float_lt x s1"
      using le that float_le_not_lt [of s1 x] by blast
    ultimately show ?thesis by (simp add: improved_min)
  next
    case False
    then have same: "getattr_best_score ''min'' ?w' = getattr_best_score ''min'' w"
      by (simp add: getattr_best_score_after [OF min_mode])
    show ?thesis
    proof (cases "getattr_best_score ''min'' w")
      case PyNone
      then show ?thesis by (simp add: same improved_def)
    next
      case (PyFloat b)
      then have "\<not> float_lt s1 b"
        using False by (simp add: improved_min)
      then have "\<not> float_lt x b"
        using le that float_le_lt_trans [of s1 x b] by blast
      then show ?thesis by (simp add: same PyFloat improved_min)
    qed
  qed
  then have "update_flags a m opt s ''min'' rest ?w' = replicate (length rest) False"
    by (intro never_improving_none_updated) blast
  then show ?thesis
    by (simp add: Cons c Let_def)
qed


lemma best_pair_after:
  "(best_score (hidden (world_after (save_checkpoint a step m opt s score mode w))),
    best_step (hidden (world_after (save_checkpoint a step m opt s score mode w))))
   = (if improved score (getattr_best_score mode w) mode = Inr True
      then (Some score, Some step)
      else (best_score (hidden w), best_step (hidden w)))"
proof (cases "mode = ''min'' \<or> mode = ''max''")
  case True
  then show ?thesis by (rule save_checkpoint_best)
next
  case False
  then show ?thesis
    by (auto simp: save_checkpoint_def improved_def split: pyval.splits)
qed

lemma improved_min_unset:
  "best_score (hidden w) = None \<Longrightarrow>
   improved (PyFloat s0) (getattr_best_score ''min'' w) ''min'' = Inr (float_lt s0 PosInf)"
  by (simp add: getattr_best_score_def default_score_def improved_min)

text \<open>
  Claim C2, as amended. For every call, in any state of the process: the call assigns the
  attributes \<^verbatim>\<open>best_score\<close> and \<^verbatim>\<open>best_step\<close> (to its score and step) exactly when
  its score strictly improves on the current best under the mode of the call, and leaves them
  unchanged otherwise; and the attribute \<^verbatim>\<open>last_step\<close> never decreases, over one call
  and over a whole run. With mode \<^verbatim>\<open>min\<close>, a strictly decreasing sequence of scores
  whose first score improves on the best before the run (in a process with no best yet:
  whose first score is below \<^verbatim>\<open>+inf\<close>) assigns the pair on each call, and a
  non-decreasing sequence never assigns it after its first call.
\<close>

theorem best_pair_updated_iff_improved:
  "(updated w (world_after (save_checkpoint a step m opt s score mode w))
      \<longleftrightarrow> improved score (getattr_best_score mode w) mode = Inr True)
   \<and> (best_score (hidden (world_after (save_checkpoint a step m opt s score mode w))),
       best_step (hidden (world_after (save_checkpoint a step m opt s score mode w))))
      = (if improved score (getattr_best_score mode w) mode = Inr True
         then (Some score, Some step)
         else (best_score (hidden w), best_step (hidden w)))
   \<and> getattr_last_step w
      \<le> getattr_last_step (world_after (save_checkpoint a step m opt s score mode w))
   \<and> sorted (map getattr_last_step (w # save_all a m opt s mode calls w))
   \<and> (sorted_wrt (\<lambda>x y. float_lt y x) (s0 # map snd calls)
        \<and> improved (PyFloat s0) (getattr_best_score ''min'' w) ''min'' = Inr True
      \<longrightarrow> update_flags a m opt s ''min'' ((step0, s0) # calls) w
            = replicate (Suc (length calls)) True)
   \<and> (best_score (hidden w) = None
      \<longrightarrow> improved (PyFloat s0) (getattr_best_score ''min'' w) ''min''
            = Inr (float_lt s0 PosInf))
   \<and> (sorted_wrt float_le (map snd calls)
      \<longrightarrow> tl (update_flags a m opt s ''min'' calls w) = replicate (length calls - 1) False)"
  using updated_iff_improved [of w a step m opt s score mode]
    best_pair_after [of a step m opt s score mode w]
    getattr_last_step_after [of w a step m opt s score mode]
    save_all_last_step_sorted [of w a m opt s mode calls]
    decreasing_all_updated [of s0 calls w a m opt s step0]
    improved_min_unset [of w s0]
    nondecreasing_none_updated_after_first [of calls a m opt s w]
  by blast

text \<open>
  Claim C2 as stated has every strictly decreasing sequence assign the pair on each call.
  In a new process the sequence \<^verbatim>\<open>+inf, 1\<close> is strictly decreasing, and its first
  call assigns nothing: \<^verbatim>\<open>inf < inf\<close> is false.
\<close>

theorem decreasing_scores_counterexample:
  "sorted_wrt (\<lambda>x y. float_lt y x) (map snd [(0, PosInf), (5, Fin 1)])
   \<and> update_flags example_args NoArg NoArg NoArg ''min'' [(0, PosInf), (5, Fin 1)] fresh_world
       = [False, True]"
proof -
  have f: "best_score (hidden fresh_world) = None"
    "getattr_best_score ''min'' fresh_world = PyFloat PosInf"
    by (simp_all add: fresh_world_def fresh_attrs_def getattr_best_score_def default_score_def)
  let ?w = "world_after
    (save_checkpoint example_args 0 NoArg NoArg NoArg (PyFloat PosInf) ''min'' fresh_world)"
  have "getattr_best_score ''min'' ?w = PyFloat PosInf"
    by (simp add: getattr_best_score_after [OF min_mode] f improved_min)
  then show ?thesis
    by (simp add: Let_def updated_iff_improved f improved_min)
qed

theorem best_pair_updated_iff_improved_witness:
  "sorted_wrt (\<lambda>x y. float_lt y x) (map snd [(0, Fin 3), (5, Fin 2), (10, Fin 1)])
   \<and> update_flags example_args NoArg NoArg NoArg ''min'' [(0, Fin 3), (5, Fin 2), (10, Fin 1)]
        fresh_world = [True, True, True]
   \<and> sorted_wrt float_le (map snd [(0, Fin 1), (5, Fin 1), (10, Fin 2)])
   \<and> tl (update_flags example_args NoArg NoArg NoArg ''min'' [(0, Fin 1), (5, Fin 1), (10, Fin 2)]
        fresh_world) = [False, False]"
proof -
  have f: "best_score (hidden fresh_world) = None"
    by (simp add: fresh_world_def fresh_attrs_def)
  have d: "sorted_wrt (\<lambda>x y. float_lt y x) (Fin 3 # map snd [(5, Fin 2), (10, Fin 1)])"
    by simp
  have n: "sorted_wrt float_le (map snd [(0 :: int, Fin 1), (5, Fin 1), (10, Fin 2)])"
    by simp
  note t1 = best_pair_updated_iff_improved
    [where w = fresh_world and ?s0.0 = "Fin 3" and calls = "[(5, Fin 2), (10, Fin 1)]"
      and a = example_args and m = NoArg and opt = NoArg and s = NoArg and ?step0.0 = 0]
  note t2 = best_pair_updated_iff_improved
    [where w = fresh_world and calls = "[(0, Fin 1), (5, Fin 1), (10, Fin 2)]"
      and a = example_args and m = NoArg and opt = NoArg and s = NoArg]
  have i: "improved (PyFloat (Fin 3)) (getattr_best_score ''min'' fresh_world) ''min'' = Inr True"
    using t1 f by simp
  have "update_flags example_args NoArg NoArg NoArg ''min'' [(0, Fin 3), (5, Fin 2), (10, Fin 1)]
        fresh_world = [True, True, True]"
    using t1 d i by (simp add: numeral_3_eq_3 del: update_flags.simps)
  moreover have "tl (update_flags example_args NoArg NoArg NoArg ''min''
        [(0, Fin 1), (5, Fin 1), (10, Fin 2)] fresh_world) = [False, False]"
    using t2 n by (simp del: update_flags.simps)
  ultimately show ?thesis
    using d n by simp
qed

section \<open>The three paths are distinct, and one path per step\<close>

lemma digit_cases:
  assumes "d < (10 :: nat)"
  shows "d = 0 \<or> d = 1 \<or> d = 2 \<or> d = 3 \<or> d = 4 \<or> d = 5 \<or> d = 6 \<or> d = 7 \<or> d = 8 \<or> d = 9"
  using assms by arith

lemma digit_val_digit_char: "d < 10 \<Longrightarrow> digit_val (digit_char d) = d"
  using digit_cases [of d] by (auto simp: digit_val_def digit_char_def decimal_digits_def)

lemma length_decimal_digits: "length decimal_digits = 10"
  by (simp add: decimal_digits_def)

lemma digit_char_in_digits: "d < 10 \<Longrightarrow> digit_char d \<in> set decimal_digits"
  unfolding digit_char_def by (rule nth_mem) (simp add: length_decimal_digits)

lemma not_a_digit: "CHR ''-'' \<notin> set decimal_digits" "CHR ''_'' \<notin> set decimal_digits"
  by (simp_all add: decimal_digits_def)

lemma nat_of_digits_snoc: "nat_of_digits (cs @ [c]) = 10 * nat_of_digits cs + digit_val c"
  by (simp add: nat_of_digits_def)

lemma nat_of_digits_str_nat: "nat_of_digits (str_nat n) = n"
proof (induction n rule: str_nat.induct)
  case (1 n)
  show ?case
  proof (cases "n < 10")
    case True
    then show ?thesis
      by (simp add: str_nat.simps [of n] nat_of_digits_def digit_val_digit_char)
  next
    case False
    then show ?thesis
      using 1 by (simp add: str_nat.simps [of n] nat_of_digits_snoc digit_val_digit_char)
  qed
qed

lemma str_nat_inj: "str_nat n = str_nat k \<Longrightarrow> n = k"
  by (metis nat_of_digits_str_nat)

lemma str_nat_digits: "set (str_nat n) \<subseteq> set decimal_digits"
proof (induction n rule: str_nat.induct)
  case (1 n)
  show ?case
  proof (cases "n < 10")
    case True
    then show ?thesis
      using digit_char_in_digits [of n] by (simp add: str_nat.simps [of n])
  next
    case False
    then show ?thesis
      using 1 digit_char_in_digits [of "n mod 10"] by (simp add: str_nat.simps [of n])
  qed
qed

lemma str_int_chars: "set (str_int i) \<subseteq> insert (CHR ''-'') (set decimal_digits)"
proof (cases "i < 0")
  case True
  then show ?thesis
    using str_nat_digits [of "nat (- i)"] by (simp add: str_int_def) blast
next
  case False
  then show ?thesis
    using str_nat_digits [of "nat i"] by (simp add: str_int_def) blast
qed

lemma no_minus_str_nat: "CHR ''-'' # cs \<noteq> str_nat n"
proof
  assume "CHR ''-'' # cs = str_nat n"
  then have "CHR ''-'' \<in> set (str_nat n)"
    by (metis list.set_intros(1))
  then show False
    using str_nat_digits [of n] not_a_digit(1) by blast
qed

lemma str_int_inj: "str_int i = str_int j \<Longrightarrow> i = j"
proof -
  assume eq: "str_int i = str_int j"
  show ?thesis
  proof (cases "i < 0")
    case True
    show ?thesis
    proof (cases "j < 0")
      case jneg: True
      with True eq have "str_nat (nat (- i)) = str_nat (nat (- j))"
        by (simp add: str_int_def)
      then have "nat (- i) = nat (- j)"
        by (rule str_nat_inj)
      with True jneg show ?thesis by simp
    next
      case False
      with True eq have "CHR ''-'' # str_nat (nat (- i)) = str_nat (nat j)"
        by (simp add: str_int_def)
      then show ?thesis
        using no_minus_str_nat by blast
    qed
  next
    case False
    show ?thesis
    proof (cases "j < 0")
      case True
      with False eq have "CHR ''-'' # str_nat (nat (- j)) = str_nat (nat i)"
        by (simp add: str_int_def)
      then show ?thesis
        using no_minus_str_nat by blast
    next
      case jpos: False
      with False eq have "str_nat (nat i) = str_nat (nat j)"
        by (simp add: str_int_def)
      then have "nat i = nat j"
        by (rule str_nat_inj)
      with False jpos show ?thesis by simp
    qed
  qed
qed

lemma step_file_inj: "step_file i = step_file j \<longleftrightarrow> i = j"
  using str_int_inj by (auto simp: step_file_def)

lemma step_file_not_best_last:
  "step_file i \<noteq> ''checkpoint_best.pt''" "step_file i \<noteq> ''checkpoint_last.pt''"
proof -
  have u: "CHR ''_'' \<notin> set (str_int i)"
    using str_int_chars [of i] not_a_digit(2) by auto
  have "str_int i = ''_best''" if "step_file i = ''checkpoint_best.pt''"
    using that by (simp add: step_file_def)
  then show "step_file i \<noteq> ''checkpoint_best.pt''"
    using u by (metis list.set_intros(1))
  have "str_int i = ''_last''" if "step_file i = ''checkpoint_last.pt''"
    using that by (simp add: step_file_def)
  then show "step_file i \<noteq> ''checkpoint_last.pt''"
    using u by (metis list.set_intros(1))
qed

lemma os_path_join_relative:
  "os_path_join d (CHR ''c'' # cs)
     = (if d = [] \<or> last d = CHR ''/'' then d else d @ ''/'') @ CHR ''c'' # cs"
  by (simp add: os_path_join_def)

lemma os_path_join_inj:
  "os_path_join d (CHR ''c'' # cs) = os_path_join d (CHR ''c'' # cs') \<longleftrightarrow> cs = cs'"
  by (simp add: os_path_join_relative)

lemma step_path_inj: "step_path a i = step_path a j \<longleftrightarrow> i = j"
proof -
  have "step_file i = step_file j \<longleftrightarrow> i = j"
    by (rule step_file_inj)
  then show ?thesis
    by (simp add: step_path_def step_file_def os_path_join_inj)
qed

lemma step_path_not_best_last: "step_path a i \<noteq> best_path a" "step_path a i \<noteq> last_path a"
  using step_file_not_best_last [of i]
  by (simp_all add: step_path_def best_path_def last_path_def step_file_def os_path_join_inj)

text \<open>
  Claim C7, as amended. A call that gets to the writes and finds the attribute
  \<^verbatim>\<open>best_step\<close> set returns normally and writes \<^verbatim>\<open>checkpoint{step}.pt\<close> exactly
  when \<^verbatim>\<open>step_checkpoints\<close> is set. Under one \<^verbatim>\<open>checkpoint_dir\<close> two steps have the
  same per-step path only when they are equal, and the call leaves the per-step file of
  every other step as it was: a per-step file is overwritten only by a later save of the
  same step.
\<close>

theorem step_file_written_iff_flag:
  assumes mode: "mode = ''min'' \<or> mode = ''max''"
    and io: "\<not> no_save a" "save_interval a \<noteq> 0" "step mod save_interval a = 0"
    and cmp: "improved score (getattr_best_score mode w) mode = Inr better"
    and bs: "(if better then Some step else best_step (hidden w)) = Some bs"
  shows "raised (save_checkpoint a step m opt s score mode w) = None
    \<and> (step_path a step \<in> set (written_paths (events (save_checkpoint a step m opt s score mode w)))
         \<longleftrightarrow> step_checkpoints a)
    \<and> (step_path a step' = step_path a step \<longleftrightarrow> step' = step)
    \<and> (step' \<noteq> step \<longrightarrow>
          files (world_after (save_checkpoint a step m opt s score mode w)) (step_path a step')
            = files w (step_path a step'))"
proof -
  define out where "out = save_checkpoint a step m opt s score mode w"
  define sd where "sd = checkpoint_record a step m opt s score (hidden (world_after out)) bs"
  define ps where "ps = checkpoint_paths a step better (getattr_last_step w)"
  note wr = save_checkpoint_writes [OF mode io cmp bs out_def sd_def ps_def]
  have mem: "p \<in> set ps \<longleftrightarrow>
      (step_checkpoints a \<and> p = step_path a step) \<or> (better \<and> p = best_path a)
      \<or> (step > getattr_last_step w \<and> p = last_path a)" for p
    by (auto simp: ps_def checkpoint_paths_def)
  have "step_path a step \<in> set (written_paths (events out)) \<longleftrightarrow> step_checkpoints a"
    using step_path_not_best_last [of a step] by (auto simp: wr(2) mem)
  moreover have "files (world_after out) (step_path a step') = files w (step_path a step')"
    if "step' \<noteq> step"
  proof -
    have "step_path a step' \<notin> set ps"
      using that step_path_not_best_last [of a step'] step_path_inj [of a step' step]
      by (auto simp: mem)
    then show ?thesis by (simp add: wr(3))
  qed
  ultimately show ?thesis
    using wr(1) step_path_inj [of a step' step] unfolding out_def by blast
qed

lemma example_io:
  "\<not> no_save example_args" "save_interval example_args \<noteq> 0"
  "10 mod save_interval example_args = 0" "step_checkpoints example_args"
  by (simp_all add: example_args_def)

lemma saved_twice_events:
  "written_paths (events
      (save_checkpoint example_args 10 NoArg NoArg NoArg (PyFloat (Fin 0.6)) ''min'' saved_once))
   = [step_path example_args 10]"
proof -
  have cmp: "improved (PyFloat (Fin 0.6)) (getattr_best_score ''min'' saved_once) ''min''
      = Inr False"
    by (simp add: improved_def getattr_best_score_def saved_once_hidden)
  have bs: "(if False then Some 10 else best_step (hidden saved_once)) = Some 10"
    by (simp add: saved_once_hidden)
  have l: "getattr_last_step saved_once = 10"
    by (simp add: getattr_last_step_def saved_once_hidden)
  show ?thesis
    unfolding save_checkpoint_writes(2) [OF min_mode example_io(1,2,3) cmp bs refl refl refl]
    by (simp add: checkpoint_paths_def l example_io(4))
qed

text \<open>
  Claim C7 as stated has no two calls write the same per-step path. Two saves of step 10
  both write \<^verbatim>\<open>checkpoint10.pt\<close>: the second overwrites the file of the first.
\<close>

theorem step_file_overwritten_counterexample:
  "step_path example_args 10 \<in> set (written_paths (events
      (save_checkpoint example_args 10 NoArg NoArg NoArg (PyFloat (Fin 0.5)) ''min'' fresh_world)))
   \<and> step_path example_args 10 \<in> set (written_paths (events
      (save_checkpoint example_args 10 NoArg NoArg NoArg (PyFloat (Fin 0.6)) ''min'' saved_once)))"
  unfolding example_save_events saved_twice_events by simp

theorem step_file_written_iff_flag_witness:
  "raised (save_checkpoint example_args 10 NoArg NoArg NoArg (PyFloat (Fin 0.6)) ''min'' saved_once)
     = None
   \<and> step_checkpoints example_args
   \<and> step_path example_args 10 \<in> set (written_paths (events
        (save_checkpoint example_args 10 NoArg NoArg NoArg (PyFloat (Fin 0.6)) ''min'' saved_once)))
   \<and> step_path example_args 5 \<noteq> step_path example_args 10
   \<and> files (world_after
        (save_checkpoint example_args 10 NoArg NoArg NoArg (PyFloat (Fin 0.6)) ''min'' saved_once))
        (step_path example_args 5) = files saved_once (step_path example_args 5)"
proof -
  have cmp: "improved (PyFloat (Fin 0.6)) (getattr_best_score ''min'' saved_once) ''min''
      = Inr False"
    by (simp add: improved_def getattr_best_score_def saved_once_hidden)
  have bs: "(if False then Some 10 else best_step (hidden saved_once)) = Some 10"
    by (simp add: saved_once_hidden)
  from step_file_written_iff_flag [OF min_mode example_io(1,2,3) cmp bs,
      of NoArg NoArg NoArg 5] example_io(4)
  show ?thesis by simp
qed

section \<open>Where the code departs from its specification\<close>

text \<open>
  A call that gets to the writes and finds \<^verbatim>\<open>best_step\<close> set writes
  \<^verbatim>\<open>checkpoint_last.pt\<close> exactly when its step exceeds the previous \<^verbatim>\<open>last_step\<close>.
\<close>

lemma last_path_not_best: "last_path a \<noteq> best_path a"
  by (simp add: last_path_def best_path_def os_path_join_inj)

lemma last_file_written_iff_progress:
  assumes mode: "mode = ''min'' \<or> mode = ''max''"
    and io: "\<not> no_save a" "save_interval a \<noteq> 0" "step mod save_interval a = 0"
    and cmp: "improved score (getattr_best_score mode w) mode = Inr better"
    and bs: "(if better then Some step else best_step (hidden w)) = Some bs"
  shows "last_path a \<in> set (written_paths (events (save_checkpoint a step m opt s score mode w)))
         \<longleftrightarrow> step > getattr_last_step w"
  using step_path_not_best_last(2) [of a step] last_path_not_best [of a]
  by (auto simp: save_checkpoint_writes(2) [OF mode io cmp bs refl refl refl] checkpoint_paths_def)

text \<open>
  Claim C3 does not hold of every call that gets to the writes. The first save of a process,
  with step 0 and score \<^verbatim>\<open>+inf\<close> under \<^verbatim>\<open>min\<close>, has a step above the previous
  \<^verbatim>\<open>last_step\<close> (-1), and so has the save of step 15 with score 0.7 in a process that
  resumed from a checkpoint of step 10 with best score 0.5: both raise AttributeError at
  line 102 and write no file, \<^verbatim>\<open>checkpoint_last.pt\<close> included.
\<close>

theorem last_file_not_written_on_attribute_error:
  "getattr_last_step fresh_world < 0
   \<and> raised (save_checkpoint example_args 0 NoArg NoArg NoArg (PyFloat PosInf) ''min'' fresh_world)
       = Some AttributeError
   \<and> written_paths (events
        (save_checkpoint example_args 0 NoArg NoArg NoArg (PyFloat PosInf) ''min'' fresh_world)) = []
   \<and> getattr_last_step resumed_world < 15
   \<and> raised (save_checkpoint example_args 15 NoArg NoArg NoArg (PyFloat (Fin 0.7)) ''min''
        resumed_world) = Some AttributeError
   \<and> written_paths (events (save_checkpoint example_args 15 NoArg NoArg NoArg (PyFloat (Fin 0.7))
        ''min'' resumed_world)) = []"
proof -
  have io: "\<not> no_save example_args" "save_interval example_args \<noteq> 0"
    "0 mod save_interval example_args = 0" "15 mod save_interval example_args = 0"
    by (simp_all add: example_args_def)
  have c1: "improved (PyFloat PosInf) (getattr_best_score ''min'' fresh_world) ''min'' = Inr False"
    by (simp add: improved_def getattr_best_score_def default_score_def fresh_world_def
        fresh_attrs_def)
  have c2: "improved (PyFloat (Fin 0.7)) (getattr_best_score ''min'' resumed_world) ''min''
      = Inr False"
    by (simp add: improved_def getattr_best_score_def resumed_world_hidden)
  have b: "best_step (hidden fresh_world) = None" "best_step (hidden resumed_world) = None"
    by (simp_all add: fresh_world_def fresh_attrs_def resumed_world_hidden)
  have l: "getattr_last_step fresh_world < 0" "getattr_last_step resumed_world < 15"
    by (simp_all add: getattr_last_step_def fresh_world_def fresh_attrs_def resumed_world_hidden)
  show ?thesis
    unfolding save_checkpoint_attribute_error [OF min_mode io(1,2,3) c1 b(1)]
      save_checkpoint_attribute_error [OF min_mode io(1,2,4) c2 b(2)]
    using l by simp
qed

lemma saved_once_last_file:
  "map_option sd_best_step (files saved_once (last_path example_args)) = Some (Some 10)"
proof -
  have io: "\<not> no_save example_args" "save_interval example_args \<noteq> 0"
    "10 mod save_interval example_args = 0"
    by (simp_all add: example_args_def)
  have f: "getattr_best_score ''min'' fresh_world = PyFloat PosInf"
    "getattr_last_step fresh_world = - 1"
    by (simp_all add: fresh_world_def fresh_attrs_def getattr_best_score_def default_score_def
        getattr_last_step_def)
  have cmp: "improved (PyFloat (Fin 0.5)) (getattr_best_score ''min'' fresh_world) ''min''
      = Inr True"
    unfolding f by (simp add: improved_def)
  have bs: "(if True then Some (10::int) else best_step (hidden fresh_world)) = Some 10"
    by simp
  show ?thesis
    unfolding saved_once_def save_checkpoint_writes(3) [OF min_mode io cmp bs refl refl refl]
    by (simp add: checkpoint_paths_def f)
qed

text \<open>
  Claim C4 does not hold: the record of \<^verbatim>\<open>checkpoint_last.pt\<close> holds
  \<^verbatim>\<open>best_step = 10\<close>, and after \<^verbatim>\<open>load_checkpoint\<close> in a new process the attributes
  \<^verbatim>\<open>last_step\<close> and \<^verbatim>\<open>best_score\<close> are restored while \<^verbatim>\<open>best_step\<close> is still
  unset.
\<close>

theorem load_checkpoint_leaves_best_step_unset:
  "restore_file example_args = Some (last_path example_args)
   \<and> map_option sd_best_step (files saved_once (last_path example_args)) = Some (Some 10)
   \<and> hidden resumed_world
       = \<lparr>last_step = Some 10, best_score = Some (PyFloat (Fin 0.5)), best_step = None\<rparr>"
proof -
  have "restore_file example_args = Some (last_path example_args)"
    by (simp add: example_args_def last_path_def os_path_join_def)
  then show ?thesis
    unfolding saved_once_last_file resumed_world_hidden by simp
qed

text \<open>
  Claim C5 does not hold: line 73 tests the flag \<^verbatim>\<open>args.resume_training\<close>, not
  \<^verbatim>\<open>args.restore_file\<close>. With the restore file on disk and the standard output not a
  regular file the log is opened with mode \<^verbatim>\<open>w\<close>; with no restore file and the standard
  output redirected to a regular file it is opened with mode \<^verbatim>\<open>a\<close>.
\<close>

theorem init_logging_ignores_restore_file:
  "restore_file example_args = Some (last_path example_args)
   \<and> os_path_isfile saved_once (last_path example_args)
   \<and> init_logging example_args saved_once
       = [StreamHandler INFO, FileHandler ''exp/logs/train.log'' ''w'' DEBUG]
   \<and> \<not> os_path_isfile fresh_world (last_path example_args)
   \<and> init_logging example_args (fresh_world\<lparr>regular_fds := {1}\<rparr>)
       = [StreamHandler INFO, FileHandler ''exp/logs/train.log'' ''a'' DEBUG]"
proof -
  have r: "restore_file example_args = Some (last_path example_args)"
    by (simp add: example_args_def last_path_def os_path_join_def)
  have "files saved_once (last_path example_args) \<noteq> None"
    using saved_once_last_file by auto
  then have f: "os_path_isfile saved_once (last_path example_args)"
    by (simp add: os_path_isfile_def)
  have fds: "regular_fds saved_once = {}"
    by (simp add: saved_once_def save_checkpoint_def write_checkpoints_def Let_def fresh_world_def
      fresh_attrs_def example_args_def getattr_last_step_def getattr_best_score_def
      default_score_def improved_def os_makedirs_def torch_save_def)
  have w: "init_logging example_args saved_once
       = [StreamHandler INFO, FileHandler ''exp/logs/train.log'' ''w'' DEBUG]"
    by (simp add: init_logging_def os_path_isfile_bool_def fds) (simp add: example_args_def)
  have n: "\<not> os_path_isfile fresh_world (last_path example_args)"
    by (simp add: os_path_isfile_def fresh_world_def)
  have a: "init_logging example_args (fresh_world\<lparr>regular_fds := {1}\<rparr>)
       = [StreamHandler INFO, FileHandler ''exp/logs/train.log'' ''a'' DEBUG]"
    by (simp add: init_logging_def os_path_isfile_bool_def example_args_def)
  from r f w n a show ?thesis by blast
qed

end
